theory Spec2Isabelle
  imports Complex_Main "HOL-Library.Word"
begin

unbundle bit_operations_syntax

section \<open>Strangeness builder: V0 and cascade candidate construction\<close>

text \<open>
  A shallow embedding of \<^verbatim>\<open>PWGLF/TableProducer/strangenessbuilder.cxx\<close>: the task
  \<^verbatim>\<open>produceV0ToCascMap\<close> and the task \<^verbatim>\<open>strangenessBuilder\<close> (its start-up check, the two
  candidate builders and the loop that fills the output tables).

  The vertex fitter, the track propagation and the \<^verbatim>\<open>RecoDecay\<close> helpers are collaborators
  whose code is elsewhere; the builder only calls them. They are the fields of the record
  \<open>env\<close> below, so every statement holds for whatever these collaborators compute.
\<close>

subsection \<open>Floating-point values\<close>

text \<open>
  The gates of the builder are comparisons of \<^verbatim>\<open>float\<close> and \<^verbatim>\<open>double\<close> values. What
  decides them is the order of the values and the rule that every ordered comparison with a
  not-a-number is false, so a value is a not-a-number, an infinity or a number.

  A value of type \<^verbatim>\<open>double\<close> is taken as the number it stands for: arithmetic in \<^verbatim>\<open>double\<close>
  is exact. A value of type \<^verbatim>\<open>float\<close> is a number with 24 significant bits; an assignment
  of a \<^verbatim>\<open>double\<close> to a \<^verbatim>\<open>float\<close> field and a sum of two \<^verbatim>\<open>float\<close>s round to the nearest
  such number (\<open>to_float\<close> below).
\<close>

datatype cfloat = NaN | NegInf | Fin real | PosInf

fun flt_less :: "cfloat \<Rightarrow> cfloat \<Rightarrow> bool" where
  "flt_less (Fin x) (Fin y) = (x < y)"
| "flt_less NegInf (Fin y) = True"
| "flt_less NegInf PosInf = True"
| "flt_less (Fin x) PosInf = True"
| "flt_less _ _ = False"

fun flt_le :: "cfloat \<Rightarrow> cfloat \<Rightarrow> bool" where
  "flt_le NaN _ = False"
| "flt_le _ NaN = False"
| "flt_le a b = (a = b \<or> flt_less a b)"

fun flt_neg :: "cfloat \<Rightarrow> cfloat" where
  "flt_neg NaN = NaN"
| "flt_neg NegInf = PosInf"
| "flt_neg (Fin x) = Fin (- x)"
| "flt_neg PosInf = NegInf"

fun flt_add :: "cfloat \<Rightarrow> cfloat \<Rightarrow> cfloat" where
  "flt_add (Fin x) (Fin y) = Fin (x + y)"
| "flt_add NaN _ = NaN"
| "flt_add _ NaN = NaN"
| "flt_add PosInf NegInf = NaN"
| "flt_add NegInf PosInf = NaN"
| "flt_add PosInf _ = PosInf"
| "flt_add _ PosInf = PosInf"
| "flt_add NegInf _ = NegInf"
| "flt_add _ NegInf = NegInf"

definition flt_sub :: "cfloat \<Rightarrow> cfloat \<Rightarrow> cfloat" where
  "flt_sub a b = flt_add a (flt_neg b)"

text \<open>\<^verbatim>\<open>fabs\<close> and \<^verbatim>\<open>TMath::Abs\<close>.\<close>

fun flt_abs :: "cfloat \<Rightarrow> cfloat" where
  "flt_abs NaN = NaN"
| "flt_abs NegInf = PosInf"
| "flt_abs (Fin x) = Fin \<bar>x\<bar>"
| "flt_abs PosInf = PosInf"

text \<open>
  The conversion to \<^verbatim>\<open>float\<close>. \<open>float_exponent x\<close> is the \<open>e\<close> with
  \<open>2\<^sup>e \<le> \<bar>x\<bar> < 2\<^sup>e\<^sup>+\<^sup>1\<close>. The \<^verbatim>\<open>float\<close>s around \<open>x\<close> are the multiples of
  \<open>2\<^sup>e\<^sup>-\<^sup>2\<^sup>3\<close>, of \<open>2\<^sup>-\<^sup>1\<^sup>4\<^sup>9\<close> below the smallest normal number; \<open>x\<close> goes to the nearest
  one, to the one with the even multiple when two are equally near, and to an infinity
  when that is beyond the largest \<^verbatim>\<open>float\<close>.
\<close>

function float_exponent :: "real \<Rightarrow> int" where
  "float_exponent x =
     (if x = 0 then 0
      else if 2 \<le> \<bar>x\<bar> then float_exponent (x / 2) + 1
      else if \<bar>x\<bar> < 1 then float_exponent (x * 2) - 1
      else 0)"
  by pat_completeness auto
termination
proof (relation "measure (\<lambda>x. nat \<bar>\<lfloor>log 2 \<bar>x\<bar>\<rfloor>\<bar>)")
  show "wf (measure (\<lambda>x. nat \<bar>\<lfloor>log 2 \<bar>x\<bar>\<rfloor>\<bar>))" by simp
next
  fix x :: real
  assume x: "x \<noteq> 0" and big: "2 \<le> \<bar>x\<bar>"
  have "log 2 \<bar>x / 2\<bar> = log 2 \<bar>x\<bar> - 1" using x by (simp add: log_divide)
  moreover have "1 \<le> log 2 \<bar>x\<bar>" using big by (simp add: le_log_iff)
  then have "1 \<le> \<lfloor>log 2 \<bar>x\<bar>\<rfloor>" by linarith
  ultimately show "(x / 2, x) \<in> measure (\<lambda>x. nat \<bar>\<lfloor>log 2 \<bar>x\<bar>\<rfloor>\<bar>)" by simp
next
  fix x :: real
  assume x: "x \<noteq> 0" and small: "\<bar>x\<bar> < 1"
  have "log 2 \<bar>x * 2\<bar> = log 2 \<bar>x\<bar> + 1" using x by (simp add: log_mult abs_mult)
  moreover have "log 2 \<bar>x\<bar> < 0" using small x by simp
  then have "\<lfloor>log 2 \<bar>x\<bar>\<rfloor> \<le> - 1" by linarith
  ultimately show "(x * 2, x) \<in> measure (\<lambda>x. nat \<bar>\<lfloor>log 2 \<bar>x\<bar>\<rfloor>\<bar>)" by simp
qed

declare float_exponent.simps [simp del]

definition pow2 :: "int \<Rightarrow> real" where
  "pow2 k = (if 0 \<le> k then 2 ^ nat k else 1 / 2 ^ nat (- k))"

definition round_even :: "real \<Rightarrow> int" where
  "round_even y =
     (let f = \<lfloor>y\<rfloor>; d = y - of_int f
      in if d < 1 / 2 then f else if 1 / 2 < d then f + 1 else if even f then f else f + 1)"

definition float_round :: "real \<Rightarrow> cfloat" where
  "float_round x =
     (let e = max (float_exponent x) (- 126);
          u = pow2 (e - 23);
          r = of_int (round_even (x / u)) * u
      in if 2 ^ 128 \<le> r then PosInf else if r \<le> - (2 ^ 128) then NegInf else Fin r)"

fun to_float :: "cfloat \<Rightarrow> cfloat" where
  "to_float (Fin x) = float_round x"
| "to_float v = v"

type_synonym vec3 = "cfloat \<times> cfloat \<times> cfloat"

definition vec_to_float :: "vec3 \<Rightarrow> vec3" where
  "vec_to_float v = (to_float (fst v), to_float (fst (snd v)), to_float (snd (snd v)))"

subsection \<open>The V0-to-cascade index (\<^verbatim>\<open>produceV0ToCascMap\<close>)\<close>

text \<open>
  \<^verbatim>\<open>std::multimap<int, int>\<close> keeps its entries ordered by key; \<^verbatim>\<open>insert\<close> puts a new entry
  at the upper bound of its key, behind the entries of the same key that are already there.
  The container is the list of its entries in iteration order. Keys and values are the
  global indices of rows of the V0 table and of the cascade table, as the \<^verbatim>\<open>int\<close> they are
  stored as; the index columns of the tables are of that width.
\<close>

type_synonym multimap = "(int \<times> int) list"

fun mm_insert :: "int \<times> int \<Rightarrow> multimap \<Rightarrow> multimap" where
  "mm_insert e [] = [e]"
| "mm_insert e (x # xs) = (if fst e < fst x then e # x # xs else x # mm_insert e xs)"

text \<open>
  \<^verbatim>\<open>equal_range(k)\<close>: from the first entry whose key is not less than \<open>k\<close> (the lower bound)
  up to the first entry whose key is greater than \<open>k\<close> (the upper bound).
\<close>

definition equal_range :: "multimap \<Rightarrow> int \<Rightarrow> multimap" where
  "equal_range m k = takeWhile (\<lambda>x. \<not> k < fst x) (dropWhile (\<lambda>x. fst x < k) m)"

text \<open>
  A row of the cascade table as this task reads it: the global index of the V0 it refers to
  and its own global index.
\<close>

record cascade_ref =
  cr_v0 :: int
  cr_globalIndex :: int

text \<open>The first loop of \<^verbatim>\<open>process\<close>: every cascade is inserted under its V0.\<close>

definition stdV0ToCascMap :: "cascade_ref list \<Rightarrow> multimap" where
  "stdV0ToCascMap cascades = foldl (\<lambda>m c. mm_insert (cr_v0 c, cr_globalIndex c) m) [] cascades"

text \<open>
  The inner loop: \<^verbatim>\<open>lCascadeArray\<close> is cleared and receives the second component of every
  entry of the equal range, in iteration order.
\<close>

definition lCascadeArray :: "multimap \<Rightarrow> int \<Rightarrow> int list" where
  "lCascadeArray m v0 = foldl (\<lambda>arr e. arr @ [snd e]) [] (equal_range m v0)"

text \<open>\<^verbatim>\<open>process\<close>: one row of \<^verbatim>\<open>V0ToCascMap\<close> for every V0, in the order of the V0 table.\<close>

definition produceV0ToCascMap :: "int list \<Rightarrow> cascade_ref list \<Rightarrow> int list list" where
  "produceV0ToCascMap V0s cascades =
     (let m = stdV0ToCascMap cascades in map (\<lambda>v0. lCascadeArray m v0) V0s)"

subsection \<open>Input tables, configuration and collaborators\<close>

text \<open>
  \<open>'p\<close> is the type of \<^verbatim>\<open>o2::track::TrackParCov\<close>, which the builder never looks into: it
  hands such values to the fitter and to the accessors of \<open>env\<close>. A track row carries the
  columns the gates read; \<open>parCov\<close> is what \<^verbatim>\<open>getTrackParCov\<close> makes of the row.
\<close>

record 'p track =
  t_globalIndex :: int
  trackType :: "8 word"
  tpcNClsCrossedRows :: int
  dcaXY :: cfloat
  signed1Pt :: cfloat
  parCov :: 'p

record collision =
  posX :: cfloat
  posY :: cfloat
  posZ :: cfloat

text \<open>
  A row of the cascade table with its bachelor resolved, and a row of \<^verbatim>\<open>V0WithCascadeRefs\<close>
  with its daughters and its cascades (\<^verbatim>\<open>V0.cascadeCandidate()\<close>) resolved.
\<close>

record 'p cascade_in =
  bachelor_as :: "'p track"
  casc_collisionId :: int

record 'p v0_in =
  posTrack_as :: "'p track"
  negTrack_as :: "'p track"
  v0_globalIndex :: int
  cascadeCandidate :: "'p cascade_in list"

text \<open>The configurables of \<^verbatim>\<open>strangenessBuilder\<close> that the builders read.\<close>

record config =
  createCascades :: int
  createV0CovMats :: int
  createCascCovMats :: int
  dcanegtopv :: cfloat
  dcapostopv :: cfloat
  mincrossedrows :: int
  v0cospa :: cfloat
  dcav0dau :: cfloat
  v0radius :: cfloat
  isRun2 :: int
  dcabachtopv :: cfloat
  cascradius :: cfloat
  dcacascdau :: cfloat
  lambdaMassWindow :: cfloat

text \<open>
  What a call of \<^verbatim>\<open>fitter.process\<close> leaves in the fitter: the candidate vertex, the
  chi-square there, the two propagated tracks (\<^verbatim>\<open>getTrack(0)\<close>, \<^verbatim>\<open>getTrack(1)\<close>) and the
  parent track. The call either throws or returns the number of candidates.
\<close>

record 'p dcafitter =
  getPCACandidate :: vec3
  getChi2AtPCACandidate :: cfloat
  getTrack0 :: 'p
  getTrack1 :: 'p
  createParentTrackParCov :: 'p

datatype 'p fit_outcome = Throws "'p dcafitter" | Returns int "'p dcafitter"

datatype pdg = kProton | kPiPlus

text \<open>
  The collaborators. \<open>process\<close> is \<^verbatim>\<open>DCAFitterN<2>::process\<close> under the configuration set in
  \<^verbatim>\<open>init\<close>: its outcome is determined by the two tracks it is given. \<open>TPCrefit\<close> is the flag
  bit \<^verbatim>\<open>o2::aod::track::TPCrefit\<close>; \<open>recoDecay_m\<close> is \<^verbatim>\<open>RecoDecay::m\<close>.
\<close>

record 'p env =
  process :: "'p \<Rightarrow> 'p \<Rightarrow> 'p fit_outcome"
  getPxPyPzGlo :: "'p \<Rightarrow> vec3"
  getCovXYZPxPyPzGlo :: "'p \<Rightarrow> cfloat list"
  setAbsCharge :: "int \<Rightarrow> 'p \<Rightarrow> 'p"
  TPCrefit :: "8 word"
  tmath_sqrt :: "cfloat \<Rightarrow> cfloat"
  cpa :: "vec3 \<Rightarrow> vec3 \<Rightarrow> vec3 \<Rightarrow> cfloat"
  sqrtSumOfSquares :: "cfloat \<Rightarrow> cfloat \<Rightarrow> cfloat"
  recoDecay_m :: "vec3 list \<Rightarrow> cfloat list \<Rightarrow> cfloat"
  getMassPDG :: "pdg \<Rightarrow> cfloat"

subsection \<open>The state of the builder\<close>

text \<open>
  The histogram registry counts the fills of every bin; \<^verbatim>\<open>fill(h, 0.5)\<close> goes to bin 0,
  \<^verbatim>\<open>fill(h, 1.5)\<close> to bin 1 and so on.
\<close>

datatype hist = hEventCounter | hCaughtExceptions | hV0Criteria | hCascadeCriteria

type_synonym registry_t = "hist \<Rightarrow> nat \<Rightarrow> nat"

definition fill :: "hist \<Rightarrow> nat \<Rightarrow> registry_t \<Rightarrow> registry_t" where
  "fill h b r = r(h := (r h)(b := Suc (r h b)))"

record v0candidate_t =
  posTrackId :: int
  negTrackId :: int
  collisionId :: int
  globalIndex :: int
  posTrackX :: cfloat
  negTrackX :: cfloat
  pos :: vec3
  posP :: vec3
  negP :: vec3
  dcaV0dau :: cfloat
  posDCAxy :: cfloat
  negDCAxy :: cfloat
  cosPA :: cfloat
  V0radius :: cfloat
  lambdaMass :: cfloat
  antilambdaMass :: cfloat

text \<open>The fields of \<^verbatim>\<open>cascadecandidate\<close>, with the prefix \<open>c_\<close>.\<close>

record cascadecandidate_t =
  c_v0Id :: int
  c_bachelorId :: int
  c_collisionId :: int
  c_charge :: int
  c_pos :: vec3
  c_bachP :: vec3
  c_dcacascdau :: cfloat
  c_bachDCAxy :: cfloat
  c_cascradius :: cfloat

text \<open>
  The rows of the output tables, one field for every argument of the calls \<^verbatim>\<open>v0data(...)\<close>
  and \<^verbatim>\<open>cascdata(...)\<close>, in the order of the arguments (three coordinates are one \<open>vec3\<close>).
\<close>

record v0data_row =
  r_posTrackId :: int
  r_negTrackId :: int
  r_collisionId :: int
  r_globalIndex :: int
  r_posTrackX :: cfloat
  r_negTrackX :: cfloat
  r_pos :: vec3
  r_posP :: vec3
  r_negP :: vec3
  r_dcaV0dau :: cfloat
  r_posDCAxy :: cfloat
  r_negDCAxy :: cfloat

record cascdata_row =
  k_v0Id :: int
  k_bachelorId :: int
  k_collisionId :: int
  k_charge :: int
  k_pos :: vec3
  k_v0pos :: vec3
  k_posP :: vec3
  k_negP :: vec3
  k_bachP :: vec3
  k_dcaV0dau :: cfloat
  k_dcacascdau :: cfloat
  k_posDCAxy :: cfloat
  k_negDCAxy :: cfloat
  k_bachDCAxy :: cfloat

text \<open>
  \<open>fitterCalls\<close> is not a member of the task: it records every call of \<^verbatim>\<open>fitter.process\<close>,
  with the function that made it and the two tracks it was given, oldest call first. The
  four output tables are the rows appended so far.
\<close>

datatype fit_site = V0Fit | CascadeFit

record 'p strangenessBuilder =
  registry :: registry_t
  fitter :: "'p dcafitter"
  fitterCalls :: "(fit_site \<times> 'p \<times> 'p) list"
  lPositiveTrack :: 'p
  lNegativeTrack :: 'p
  lBachelorTrack :: 'p
  lV0Track :: 'p
  lCascadeTrack :: 'p
  v0candidate :: v0candidate_t
  cascadecandidate :: cascadecandidate_t
  v0data :: "v0data_row list"
  cascdata :: "cascdata_row list"
  v0covs :: "cfloat list list"
  casccovs :: "cfloat list list"

datatype error = FitterException | Fatal string

subsection \<open>\<^verbatim>\<open>strangenessBuilder::init\<close>\<close>

text \<open>
  The part of \<^verbatim>\<open>init\<close> that can stop the program and the part that changes the
  configurables. \<^verbatim>\<open>LOGF(fatal, ...)\<close> ends the program, so nothing after it runs. The lambda
  \<^verbatim>\<open>enable\<close> is applied to every input of every device; an input is given by its binding.
  The set-up of the CCDB service and of the fitter, which only passes values to them, is not
  part of the model.
\<close>

definition enable :: "string \<Rightarrow> string \<Rightarrow> int \<Rightarrow> int" where
  "enable binding table flag =
     (if binding = table then (if flag < 0 then 1 else if flag > 0 then 1 else flag) else flag)"

definition init :: "bool \<Rightarrow> bool \<Rightarrow> string list list \<Rightarrow> config \<Rightarrow> error + config" where
  "init doprocessRun2 doprocessRun3 devices cfg =
     (if doprocessRun2 = False \<and> doprocessRun3 = False
      then Inl (Fatal ''Neither processRun2 nor processRun3 enabled. Please choose one.'')
      else if doprocessRun2 = True \<and> doprocessRun3 = True
      then Inl (Fatal ''Cannot enable processRun2 and processRun3 at the same time. Please choose one.'')
      else Inr (foldl (\<lambda>c input. c
             \<lparr>createCascades := enable input ''CascData'' (createCascades c),
              createV0CovMats := enable input ''V0Covs'' (createV0CovMats c),
              createCascCovMats := enable input ''CascCovs'' (createCascCovMats c)\<rparr>)
             cfg (concat devices)))"

subsection \<open>\<^verbatim>\<open>buildV0Candidate\<close>\<close>

text \<open>
  The sum of two \<^verbatim>\<open>float\<close> vectors, component by component. The results of
  \<^verbatim>\<open>fitter.getPCACandidate\<close>, \<^verbatim>\<open>TMath::Sqrt\<close>, \<^verbatim>\<open>RecoDecay::cpa\<close>,
  \<^verbatim>\<open>RecoDecay::sqrtSumOfSquares\<close> and \<^verbatim>\<open>RecoDecay::m\<close> are \<^verbatim>\<open>double\<close>s and the fields of
  \<^verbatim>\<open>v0candidate\<close> and \<^verbatim>\<open>cascadecandidate\<close> that receive them are \<^verbatim>\<open>float\<close>s, so the
  assignments below convert.
\<close>

definition vec_add :: "vec3 \<Rightarrow> vec3 \<Rightarrow> vec3" where
  "vec_add a b = (to_float (flt_add (fst a) (fst b)),
                  to_float (flt_add (fst (snd a)) (fst (snd b))),
                  to_float (flt_add (snd (snd a)) (snd (snd b))))"

definition buildV0Candidate ::
  "'p env \<Rightarrow> config \<Rightarrow> collision \<Rightarrow> 'p track \<Rightarrow> 'p track \<Rightarrow> bool \<Rightarrow> 'p strangenessBuilder
   \<Rightarrow> bool \<times> 'p strangenessBuilder" where
  "buildV0Candidate env cfg collision posTrack negTrack lRun3 s0 =
    (let s1 = s0\<lparr>registry := fill hV0Criteria 0 (registry s0)\<rparr> in
     if isRun2 cfg \<noteq> 0 \<and> (trackType posTrack AND TPCrefit env) = 0 \<and> \<not> lRun3 then (False, s1)
     else if isRun2 cfg \<noteq> 0 \<and> (trackType negTrack AND TPCrefit env) = 0 \<and> \<not> lRun3 then (False, s1)
     else
     let s2 = s1\<lparr>registry := fill hV0Criteria 1 (registry s1)\<rparr> in
     if tpcNClsCrossedRows posTrack < mincrossedrows cfg
        \<or> tpcNClsCrossedRows negTrack < mincrossedrows cfg then (False, s2)
     else
     let s3 = s2\<lparr>registry := fill hV0Criteria 2 (registry s2)\<rparr> in
     if flt_less (flt_abs (dcaXY posTrack)) (dcapostopv cfg)
        \<or> flt_less (flt_abs (dcaXY negTrack)) (dcanegtopv cfg) then (False, s3)
     else
     let s4 = s3\<lparr>registry := fill hV0Criteria 3 (registry s3),
                 lPositiveTrack := parCov posTrack, lNegativeTrack := parCov negTrack\<rparr>;
         call = (V0Fit, lPositiveTrack s4, lNegativeTrack s4);
         (nCand, s5) =
           (case process env (lPositiveTrack s4) (lNegativeTrack s4) of
              Returns n f \<Rightarrow> (n, s4\<lparr>fitter := f, fitterCalls := fitterCalls s4 @ [call]\<rparr>)
            | Throws f \<Rightarrow> (0, s4\<lparr>fitter := f, fitterCalls := fitterCalls s4 @ [call],
                                 registry := fill hCaughtExceptions 0 (registry s4)\<rparr>))
     in
     if nCand = 0 then (False, s5)
     else
     let s6 = s5\<lparr>v0candidate := (v0candidate s5)
                 \<lparr>posP := getPxPyPzGlo env (lPositiveTrack s5),
                  negP := getPxPyPzGlo env (lNegativeTrack s5),
                  pos := vec_to_float (getPCACandidate (fitter s5)),
                  dcaV0dau := to_float (tmath_sqrt env (getChi2AtPCACandidate (fitter s5)))\<rparr>\<rparr> in
     if flt_less (dcav0dau cfg) (dcaV0dau (v0candidate s6)) then (False, s6)
     else
     let s7 = s6\<lparr>registry := fill hV0Criteria 4 (registry s6),
                 v0candidate := (v0candidate s6)
                 \<lparr>cosPA := to_float (cpa env (posX collision, posY collision, posZ collision)
                            (pos (v0candidate s6))
                            (vec_add (posP (v0candidate s6)) (negP (v0candidate s6))))\<rparr>\<rparr> in
     if flt_less (cosPA (v0candidate s7)) (v0cospa cfg) then (False, s7)
     else
     let s8 = s7\<lparr>registry := fill hV0Criteria 5 (registry s7),
                 v0candidate := (v0candidate s7)
                 \<lparr>V0radius := to_float (sqrtSumOfSquares env (fst (pos (v0candidate s7)))
                                (fst (snd (pos (v0candidate s7)))))\<rparr>\<rparr> in
     if flt_less (V0radius (v0candidate s8)) (v0radius cfg) then (False, s8)
     else
     (True, s8\<lparr>registry := fill hV0Criteria 6 (registry s8),
               lV0Track := setAbsCharge env 0 (createParentTrackParCov (fitter s8)),
               v0candidate := (v0candidate s8)
               \<lparr>lambdaMass := to_float (recoDecay_m env
                                [posP (v0candidate s8), negP (v0candidate s8)]
                                [getMassPDG env kProton, getMassPDG env kPiPlus]),
                antilambdaMass := to_float (recoDecay_m env
                                [posP (v0candidate s8), negP (v0candidate s8)]
                                [getMassPDG env kPiPlus, getMassPDG env kProton])\<rparr>\<rparr>))"

subsection \<open>\<^verbatim>\<open>buildCascadeCandidate\<close>\<close>

text \<open>
  The call of the fitter is not inside a \<^verbatim>\<open>try\<close> block here: when it throws, the function is
  left with the exception, and the result is the error together with the state at that
  moment.
\<close>

type_synonym ('p, 'a) result = "(error \<times> 'p strangenessBuilder) + 'a"

definition buildCascadeCandidate ::
  "'p env \<Rightarrow> config \<Rightarrow> collision \<Rightarrow> 'p track \<Rightarrow> bool \<Rightarrow> 'p strangenessBuilder
   \<Rightarrow> ('p, bool \<times> 'p strangenessBuilder) result" where
  "buildCascadeCandidate env cfg collision bachTrack lRun3 s0 =
    (let s1 = s0\<lparr>registry := fill hCascadeCriteria 0 (registry s0),
                 cascadecandidate := (cascadecandidate s0)\<lparr>c_bachDCAxy := dcaXY bachTrack\<rparr>\<rparr> in
     if flt_less (c_bachDCAxy (cascadecandidate s1)) (dcabachtopv cfg) then Inr (False, s1)
     else
     let s2 = s1\<lparr>registry := fill hCascadeCriteria 1 (registry s1),
                 cascadecandidate := (cascadecandidate s1)
                 \<lparr>c_charge := (if flt_less (Fin 0) (signed1Pt bachTrack) then 1 else - 1)\<rparr>\<rparr> in
     if c_charge (cascadecandidate s2) < 0
        \<and> flt_less (lambdaMassWindow cfg)
             (flt_abs (flt_sub (lambdaMass (v0candidate s2)) (Fin 1.116))) then Inr (False, s2)
     else if c_charge (cascadecandidate s2) > 0
        \<and> flt_less (lambdaMassWindow cfg)
             (flt_abs (flt_sub (antilambdaMass (v0candidate s2)) (Fin 1.116))) then Inr (False, s2)
     else
     let s3 = s2\<lparr>registry := fill hCascadeCriteria 2 (registry s2),
                 lBachelorTrack := parCov bachTrack\<rparr>;
         call = (CascadeFit, lV0Track s3, lBachelorTrack s3)
     in
     case process env (lV0Track s3) (lBachelorTrack s3) of
       Throws f \<Rightarrow>
         Inl (FitterException, s3\<lparr>fitter := f, fitterCalls := fitterCalls s3 @ [call]\<rparr>)
     | Returns nCand f \<Rightarrow>
         let s4 = s3\<lparr>fitter := f, fitterCalls := fitterCalls s3 @ [call]\<rparr> in
         if nCand = 0 then Inr (False, s4)
         else
         let s5 = s4\<lparr>registry := fill hCascadeCriteria 3 (registry s4),
                     cascadecandidate := (cascadecandidate s4)
                     \<lparr>c_bachP := getPxPyPzGlo env (getTrack1 (fitter s4)),
                      c_pos := vec_to_float (getPCACandidate (fitter s4)),
                      c_cascradius := to_float (sqrtSumOfSquares env
                                        (fst (vec_to_float (getPCACandidate (fitter s4))))
                                        (fst (snd (vec_to_float (getPCACandidate (fitter s4))))))\<rparr>\<rparr> in
         if flt_less (c_cascradius (cascadecandidate s5)) (cascradius cfg) then Inr (False, s5)
         else
         let s6 = s5\<lparr>registry := fill hCascadeCriteria 4 (registry s5),
                     cascadecandidate := (cascadecandidate s5)
                     \<lparr>c_dcacascdau :=
                        to_float (tmath_sqrt env (getChi2AtPCACandidate (fitter s5)))\<rparr>\<rparr> in
         if flt_less (c_cascradius (cascadecandidate s6)) (dcacascdau cfg) then Inr (False, s6)
         else
         Inr (True, s6\<lparr>registry := fill hCascadeCriteria 5 (registry s6),
                       lCascadeTrack := setAbsCharge env (c_charge (cascadecandidate s6))
                                          (createParentTrackParCov (fitter s6))\<rparr>))"

subsection \<open>\<^verbatim>\<open>buildStrangenessTables\<close>\<close>

text \<open>The row that \<^verbatim>\<open>v0data(...)\<close> appends, read from \<^verbatim>\<open>v0candidate\<close>.\<close>

definition v0data_of :: "v0candidate_t \<Rightarrow> v0data_row" where
  "v0data_of v =
     \<lparr>r_posTrackId = posTrackId v, r_negTrackId = negTrackId v, r_collisionId = collisionId v,
      r_globalIndex = globalIndex v, r_posTrackX = posTrackX v, r_negTrackX = negTrackX v,
      r_pos = pos v, r_posP = posP v, r_negP = negP v, r_dcaV0dau = dcaV0dau v,
      r_posDCAxy = posDCAxy v, r_negDCAxy = negDCAxy v\<rparr>"

text \<open>The row that \<^verbatim>\<open>cascdata(...)\<close> appends.\<close>

definition cascdata_of ::
  "'p v0_in \<Rightarrow> 'p cascade_in \<Rightarrow> v0candidate_t \<Rightarrow> cascadecandidate_t \<Rightarrow> cascdata_row" where
  "cascdata_of V0 cascade v c =
     \<lparr>k_v0Id = v0_globalIndex V0, k_bachelorId = t_globalIndex (bachelor_as cascade),
      k_collisionId = casc_collisionId cascade, k_charge = c_charge c,
      k_pos = c_pos c, k_v0pos = pos v, k_posP = posP v, k_negP = negP v, k_bachP = c_bachP c,
      k_dcaV0dau = dcaV0dau v, k_dcacascdau = c_dcacascdau c,
      k_posDCAxy = posDCAxy v, k_negDCAxy = negDCAxy v, k_bachDCAxy = c_bachDCAxy c\<rparr>"

text \<open>The inner loop, over the cascades that refer to the accepted V0.\<close>

fun cascadeLoop ::
  "'p env \<Rightarrow> config \<Rightarrow> collision \<Rightarrow> 'p v0_in \<Rightarrow> bool \<Rightarrow> 'p cascade_in list
   \<Rightarrow> 'p strangenessBuilder \<Rightarrow> ('p, 'p strangenessBuilder) result" where
  "cascadeLoop env cfg collision V0 lRun3 [] s = Inr s"
| "cascadeLoop env cfg collision V0 lRun3 (cascade # rest) s =
     (case buildCascadeCandidate env cfg collision (bachelor_as cascade) lRun3 s of
        Inl e \<Rightarrow> Inl e
      | Inr (validCascadeCandidate, s1) \<Rightarrow>
          if \<not> validCascadeCandidate then cascadeLoop env cfg collision V0 lRun3 rest s1
          else
          let s2 = s1\<lparr>cascdata := cascdata s1 @
                        [cascdata_of V0 cascade (v0candidate s1) (cascadecandidate s1)]\<rparr>;
              s3 = (if createCascCovMats cfg \<noteq> 0
                    then s2\<lparr>casccovs := casccovs s2 @ [getCovXYZPxPyPzGlo env (lCascadeTrack s2)]\<rparr>
                    else s2)
          in cascadeLoop env cfg collision V0 lRun3 rest s3)"

text \<open>The outer loop, over the V0s of the collision.\<close>

fun v0Loop ::
  "'p env \<Rightarrow> config \<Rightarrow> collision \<Rightarrow> bool \<Rightarrow> 'p v0_in list
   \<Rightarrow> 'p strangenessBuilder \<Rightarrow> ('p, 'p strangenessBuilder) result" where
  "v0Loop env cfg collision lRun3 [] s = Inr s"
| "v0Loop env cfg collision lRun3 (V0 # rest) s =
     (case buildV0Candidate env cfg collision (posTrack_as V0) (negTrack_as V0) lRun3 s of
        (validCandidate, s1) \<Rightarrow>
          if \<not> validCandidate then v0Loop env cfg collision lRun3 rest s1
          else
          let s2 = s1\<lparr>v0data := v0data s1 @ [v0data_of (v0candidate s1)]\<rparr>;
              s3 = (if createV0CovMats cfg \<noteq> 0
                    then s2\<lparr>v0covs := v0covs s2 @ [getCovXYZPxPyPzGlo env (lV0Track s2)]\<rparr>
                    else s2)
          in
          if createCascades cfg = 0 then v0Loop env cfg collision lRun3 rest s3
          else
          (case cascadeLoop env cfg collision V0 lRun3 (cascadeCandidate V0) s3 of
             Inl e \<Rightarrow> Inl e
           | Inr s4 \<Rightarrow> v0Loop env cfg collision lRun3 rest s4))"

definition buildStrangenessTables ::
  "'p env \<Rightarrow> config \<Rightarrow> collision \<Rightarrow> 'p v0_in list \<Rightarrow> bool
   \<Rightarrow> 'p strangenessBuilder \<Rightarrow> ('p, 'p strangenessBuilder) result" where
  "buildStrangenessTables env cfg collision V0s lRun3 s =
     v0Loop env cfg collision lRun3 V0s (s\<lparr>registry := fill hEventCounter 0 (registry s)\<rparr>)"

subsection \<open>The process functions and the life of the task\<close>

text \<open>
  \<^verbatim>\<open>processRun2\<close> and \<^verbatim>\<open>processRun3\<close> differ in the value of \<^verbatim>\<open>lRun3\<close>. Their call of
  \<^verbatim>\<open>initCCDB\<close> hands the magnetic field to the fitter and is not part of the model.
\<close>

definition processRun2 ::
  "'p env \<Rightarrow> config \<Rightarrow> collision \<Rightarrow> 'p v0_in list \<Rightarrow> 'p strangenessBuilder
   \<Rightarrow> ('p, 'p strangenessBuilder) result" where
  "processRun2 env cfg collision V0s s = buildStrangenessTables env cfg collision V0s False s"

definition processRun3 ::
  "'p env \<Rightarrow> config \<Rightarrow> collision \<Rightarrow> 'p v0_in list \<Rightarrow> 'p strangenessBuilder
   \<Rightarrow> ('p, 'p strangenessBuilder) result" where
  "processRun3 env cfg collision V0s s = buildStrangenessTables env cfg collision V0s True s"

text \<open>
  The framework calls \<^verbatim>\<open>init\<close> once and then, for every collision in turn, the process
  function whose switch is on. \<open>runTask\<close> gives the error that ended the program, if any,
  and the state of the task at the end.
\<close>

fun processAll ::
  "'p env \<Rightarrow> config \<Rightarrow> bool \<Rightarrow> (collision \<times> 'p v0_in list) list \<Rightarrow> 'p strangenessBuilder
   \<Rightarrow> error option \<times> 'p strangenessBuilder" where
  "processAll env cfg doprocessRun3 [] s = (None, s)"
| "processAll env cfg doprocessRun3 ((collision, V0s) # rest) s =
     (case (if doprocessRun3 then processRun3 env cfg collision V0s s
            else processRun2 env cfg collision V0s s) of
        Inl (e, s1) \<Rightarrow> (Some e, s1)
      | Inr s1 \<Rightarrow> processAll env cfg doprocessRun3 rest s1)"

definition runTask ::
  "'p env \<Rightarrow> bool \<Rightarrow> bool \<Rightarrow> string list list \<Rightarrow> config
   \<Rightarrow> (collision \<times> 'p v0_in list) list \<Rightarrow> 'p strangenessBuilder
   \<Rightarrow> error option \<times> 'p strangenessBuilder" where
  "runTask env doprocessRun2 doprocessRun3 devices cfg units s =
     (case init doprocessRun2 doprocessRun3 devices cfg of
        Inl e \<Rightarrow> (Some e, s)
      | Inr cfg1 \<Rightarrow> processAll env cfg1 doprocessRun3 units s)"

subsection \<open>A concrete environment\<close>

text \<open>
  Collaborators, a configuration and inputs on which the builders can be evaluated. A
  \<^verbatim>\<open>TrackParCov\<close> is a number here. The fitter finds no candidate when its second track is
  0, throws when it is 13, reports a candidate whose vertex and chi-square are not numbers
  when it is 7, and otherwise reports one candidate with vertex \<open>(6, 0, 0)\<close> and chi-square
  1. The momentum of track \<open>p\<close> is \<open>(p, 0, 0)\<close>.

  \<open>demo_sqrt\<close> is the square root, not a number below zero. \<open>demo_sqrtSumOfSquares\<close> is
  the length of a vector in the plane. \<open>demo_cpa\<close> is the cosine of the angle between the
  line from the primary vertex to the decay vertex and the momentum, their scalar product
  over the product of their lengths, cut to the interval from \<open>-1\<close> to \<open>1\<close>; it is not a
  number when one of the two has length zero or a coordinate is not a number. \<open>demo_m\<close>
  stands for the invariant mass of a pair that is a \<open>\<Lambda>\<close> under the (proton, pion)
  hypothesis: 1.1157 when the first mass is the larger one, 1.25 otherwise. The
  configuration has the default values of the configurables, as the decimal numbers they
  are written as.
\<close>

definition demo_fit :: "vec3 \<Rightarrow> cfloat \<Rightarrow> nat \<Rightarrow> nat \<Rightarrow> nat dcafitter" where
  "demo_fit vtx chi2 a b =
     \<lparr>getPCACandidate = vtx, getChi2AtPCACandidate = chi2, getTrack0 = a, getTrack1 = b,
      createParentTrackParCov = a + b\<rparr>"

definition demo_process :: "nat \<Rightarrow> nat \<Rightarrow> nat fit_outcome" where
  "demo_process a b =
     (if b = 13 then Throws (demo_fit (NaN, NaN, NaN) NaN a b)
      else if b = 0 then Returns 0 (demo_fit (NaN, NaN, NaN) NaN a b)
      else if b = 7 then Returns 1 (demo_fit (NaN, NaN, NaN) NaN a b)
      else Returns 1 (demo_fit (Fin 6, Fin 0, Fin 0) (Fin 1) a b))"

definition demo_sqrt :: "cfloat \<Rightarrow> cfloat" where
  "demo_sqrt x = (case x of Fin r \<Rightarrow> (if r < 0 then NaN else Fin (sqrt r))
                  | PosInf \<Rightarrow> PosInf | _ \<Rightarrow> NaN)"

definition demo_sqrtSumOfSquares :: "cfloat \<Rightarrow> cfloat \<Rightarrow> cfloat" where
  "demo_sqrtSumOfSquares x y =
     (case (x, y) of
        (Fin a, Fin b) \<Rightarrow> Fin (sqrt (a * a + b * b))
      | (NaN, _) \<Rightarrow> NaN
      | (_, NaN) \<Rightarrow> NaN
      | _ \<Rightarrow> PosInf)"

definition demo_cpa :: "vec3 \<Rightarrow> vec3 \<Rightarrow> vec3 \<Rightarrow> cfloat" where
  "demo_cpa posPV posSV mom =
     (case (posPV, posSV, mom) of
        ((Fin x0, Fin y0, Fin z0), (Fin x1, Fin y1, Fin z1), (Fin px, Fin py, Fin pz)) \<Rightarrow>
          (let lx = x1 - x0; ly = y1 - y0; lz = z1 - z0;
               n = sqrt ((lx * lx + ly * ly + lz * lz) * (px * px + py * py + pz * pz));
               c = (lx * px + ly * py + lz * pz) / n
           in if n = 0 then NaN else if c < - 1 then Fin (- 1) else if c > 1 then Fin 1 else Fin c)
      | _ \<Rightarrow> NaN)"

definition demo_m :: "vec3 list \<Rightarrow> cfloat list \<Rightarrow> cfloat" where
  "demo_m ps ms = (case ms of [m0, m1] \<Rightarrow> (if flt_less m1 m0 then Fin 1.1157 else Fin 1.25)
                   | _ \<Rightarrow> NaN)"

definition demo_env :: "nat env" where
  "demo_env =
     \<lparr>process = demo_process,
      getPxPyPzGlo = (\<lambda>p. (Fin (real p), Fin 0, Fin 0)),
      getCovXYZPxPyPzGlo = (\<lambda>p. replicate 21 (Fin 0)),
      setAbsCharge = (\<lambda>q p. p),
      TPCrefit = 2,
      tmath_sqrt = demo_sqrt,
      cpa = demo_cpa,
      sqrtSumOfSquares = demo_sqrtSumOfSquares,
      recoDecay_m = demo_m,
      getMassPDG = (\<lambda>k. case k of kProton \<Rightarrow> Fin 0.938272 | kPiPlus \<Rightarrow> Fin 0.13957)\<rparr>"

definition demo_cfg :: config where
  "demo_cfg =
     \<lparr>createCascades = - 1, createV0CovMats = - 1, createCascCovMats = - 1,
      dcanegtopv = Fin 0.1, dcapostopv = Fin 0.1, mincrossedrows = 70, v0cospa = Fin 0.995,
      dcav0dau = Fin 1, v0radius = Fin 5, isRun2 = 0, dcabachtopv = Fin 0.05,
      cascradius = Fin 0.9, dcacascdau = Fin 1, lambdaMassWindow = Fin 0.01\<rparr>"

definition demo_track :: "int \<Rightarrow> nat \<Rightarrow> cfloat \<Rightarrow> cfloat \<Rightarrow> nat track" where
  "demo_track g p d q =
     \<lparr>t_globalIndex = g, trackType = 2, tpcNClsCrossedRows = 80, dcaXY = d, signed1Pt = q,
      parCov = p\<rparr>"

definition demo_collision :: collision where
  "demo_collision = \<lparr>posX = Fin 0, posY = Fin 0, posZ = Fin 0\<rparr>"

text \<open>The task before the first collision: empty tables, zeroed members.\<close>

definition demo_state :: "nat strangenessBuilder" where
  "demo_state =
     \<lparr>registry = (\<lambda>h b. 0),
      fitter = demo_fit (Fin 0, Fin 0, Fin 0) (Fin 0) 0 0,
      fitterCalls = [],
      lPositiveTrack = 0, lNegativeTrack = 0, lBachelorTrack = 0, lV0Track = 0, lCascadeTrack = 0,
      v0candidate =
        \<lparr>posTrackId = 0, negTrackId = 0, collisionId = 0, globalIndex = 0,
         posTrackX = Fin 0, negTrackX = Fin 0,
         pos = (Fin 0, Fin 0, Fin 0), posP = (Fin 0, Fin 0, Fin 0), negP = (Fin 0, Fin 0, Fin 0),
         dcaV0dau = Fin 0, posDCAxy = Fin 0, negDCAxy = Fin 0, cosPA = Fin 0, V0radius = Fin 0,
         lambdaMass = Fin 0, antilambdaMass = Fin 0\<rparr>,
      cascadecandidate =
        \<lparr>c_v0Id = 0, c_bachelorId = 0, c_collisionId = 0, c_charge = 0,
         c_pos = (Fin 0, Fin 0, Fin 0), c_bachP = (Fin 0, Fin 0, Fin 0),
         c_dcacascdau = Fin 0, c_bachDCAxy = Fin 0, c_cascradius = Fin 0\<rparr>,
      v0data = [], cascdata = [], v0covs = [], casccovs = []\<rparr>"

text \<open>
  A positive daughter with track 1 and a negative daughter with the given track, both half
  a centimetre from the primary vertex; a V0 of them with global index 40; a bachelor with
  the given track, impact parameter and curvature, and a cascade with that bachelor.
\<close>

definition demo_pos :: "nat track" where
  "demo_pos = demo_track 11 1 (Fin 0.5) (Fin 1)"

definition demo_neg :: "nat \<Rightarrow> nat track" where
  "demo_neg p = demo_track 12 p (Fin (- 0.5)) (Fin (- 1))"

definition demo_cascade :: "nat \<Rightarrow> cfloat \<Rightarrow> cfloat \<Rightarrow> nat cascade_in" where
  "demo_cascade p d q = \<lparr>bachelor_as = demo_track 20 p d q, casc_collisionId = 3\<rparr>"

definition demo_V0 :: "nat \<Rightarrow> nat cascade_in list \<Rightarrow> nat v0_in" where
  "demo_V0 p cs =
     \<lparr>posTrack_as = demo_pos, negTrack_as = demo_neg p,
      v0_globalIndex = 40, cascadeCandidate = cs\<rparr>"

text \<open>
  The same collaborators, except that the cosine, the radius and the mass they compute are
  \<^verbatim>\<open>double\<close>s just beside the default thresholds 0.995, 5 and 1.116 + 0.01.
\<close>

definition demo_env_near :: "nat env" where
  "demo_env_near =
     demo_env\<lparr>cpa := (\<lambda>posPV posSV mom. Fin 0.99499999929),
              sqrtSumOfSquares := (\<lambda>x y. Fin 4.9999998),
              recoDecay_m := (\<lambda>ps ms. Fin 1.12599999)\<rparr>"

text \<open>The task after the V0 with daughters 1 and 2 has been accepted.\<close>

definition demo_v0state :: "nat strangenessBuilder" where
  "demo_v0state =
     snd (buildV0Candidate demo_env demo_cfg demo_collision demo_pos (demo_neg 2) True demo_state)"

definition demo_v0state_near :: "nat strangenessBuilder" where
  "demo_v0state_near =
     snd (buildV0Candidate demo_env_near demo_cfg demo_collision demo_pos (demo_neg 2) True
            demo_state)"

subsection \<open>Observing results\<close>

text \<open>
  The state in which a builder or a loop ended, whether it returned or was left by an
  exception, and whether a candidate was accepted.
\<close>

definition cand_state :: "('p, bool \<times> 'p strangenessBuilder) result \<Rightarrow> 'p strangenessBuilder" where
  "cand_state r = (case r of Inl (e, s) \<Rightarrow> s | Inr (b, s) \<Rightarrow> s)"

definition cand_ok :: "('p, bool \<times> 'p strangenessBuilder) result \<Rightarrow> bool" where
  "cand_ok r = (case r of Inl (e, s) \<Rightarrow> False | Inr (b, s) \<Rightarrow> b)"

definition final :: "('p, 'p strangenessBuilder) result \<Rightarrow> 'p strangenessBuilder" where
  "final r = (case r of Inl (e, s) \<Rightarrow> s | Inr s \<Rightarrow> s)"

text \<open>
  The eight fields of \<^verbatim>\<open>v0candidate\<close> that are declared and read but have no assignment in
  the file, and the columns of a V0 row that are filled from them.
\<close>

definition unwritten ::
  "v0candidate_t \<Rightarrow> int \<times> int \<times> int \<times> int \<times> cfloat \<times> cfloat \<times> cfloat \<times> cfloat" where
  "unwritten v = (posTrackId v, negTrackId v, collisionId v, globalIndex v,
                  posTrackX v, negTrackX v, posDCAxy v, negDCAxy v)"

definition row_unwritten ::
  "v0data_row \<Rightarrow> int \<times> int \<times> int \<times> int \<times> cfloat \<times> cfloat \<times> cfloat \<times> cfloat" where
  "row_unwritten r = (r_posTrackId r, r_negTrackId r, r_collisionId r, r_globalIndex r,
                      r_posTrackX r, r_negTrackX r, r_posDCAxy r, r_negDCAxy r)"

text \<open>
  What the V0 stage reads and writes: its counters, its track slots, \<^verbatim>\<open>v0candidate\<close>, its
  two output tables and its calls of the fitter.
\<close>

definition v0part where
  "v0part s = (registry s hEventCounter, registry s hV0Criteria, registry s hCaughtExceptions,
               lPositiveTrack s, lNegativeTrack s, lV0Track s, v0candidate s,
               v0data s, v0covs s, filter (\<lambda>c. fst c = V0Fit) (fitterCalls s))"

text \<open>The calls of the fitter made by \<^verbatim>\<open>buildCascadeCandidate\<close>.\<close>

definition cascadeFits :: "'p strangenessBuilder \<Rightarrow> (fit_site \<times> 'p \<times> 'p) list" where
  "cascadeFits s = filter (\<lambda>c. fst c = CascadeFit) (fitterCalls s)"

text \<open>
  The invariant behind the frame property of the unwritten fields: they hold the values
  \<open>u\<close>, and so do the rows appended after the first \<open>n\<close> V0 rows and the first \<open>m\<close> cascade
  rows.
\<close>

definition unwritten_inv ::
  "int \<times> int \<times> int \<times> int \<times> cfloat \<times> cfloat \<times> cfloat \<times> cfloat \<Rightarrow> nat \<Rightarrow> nat
   \<Rightarrow> 'p strangenessBuilder \<Rightarrow> bool" where
  "unwritten_inv u n m t \<longleftrightarrow>
     unwritten (v0candidate t) = u \<and> n \<le> length (v0data t) \<and> m \<le> length (cascdata t)
     \<and> (\<forall>r\<in>set (drop n (v0data t)). row_unwritten r = u)
     \<and> (\<forall>k\<in>set (drop m (cascdata t)).
           (k_posDCAxy k, k_negDCAxy k) = snd (snd (snd (snd (snd (snd u))))))"

text \<open>
  The two cuts of the V0 pipeline that the claim about accepted candidates names, read
  off a V0 row: the pointing-angle cosine and the transverse radius, recomputed from the
  columns of the row and converted to \<^verbatim>\<open>float\<close>, are not below their minima.
\<close>

definition v0row_passes :: "'p env \<Rightarrow> config \<Rightarrow> collision \<Rightarrow> v0data_row \<Rightarrow> bool" where
  "v0row_passes env cfg collision r \<longleftrightarrow>
     \<not> flt_less (to_float (cpa env (posX collision, posY collision, posZ collision) (r_pos r)
                   (vec_add (r_posP r) (r_negP r)))) (v0cospa cfg)
     \<and> \<not> flt_less (to_float (sqrtSumOfSquares env (fst (r_pos r)) (fst (snd (r_pos r)))))
           (v0radius cfg)"

definition v0rows_inv :: "'p env \<Rightarrow> config \<Rightarrow> collision \<Rightarrow> nat \<Rightarrow> 'p strangenessBuilder \<Rightarrow> bool" where
  "v0rows_inv env cfg collision n t \<longleftrightarrow>
     n \<le> length (v0data t) \<and> (\<forall>r\<in>set (drop n (v0data t)). v0row_passes env cfg collision r)"

text \<open>
  The two statements of the outer loop that follow an accepted V0: the row for \<^verbatim>\<open>v0data\<close>
  and, when asked for, the row for \<^verbatim>\<open>v0covs\<close>.
\<close>

definition emitV0 :: "'p env \<Rightarrow> config \<Rightarrow> 'p strangenessBuilder \<Rightarrow> 'p strangenessBuilder" where
  "emitV0 env cfg s1 =
     (let s2 = s1\<lparr>v0data := v0data s1 @ [v0data_of (v0candidate s1)]\<rparr>
      in if createV0CovMats cfg \<noteq> 0
         then s2\<lparr>v0covs := v0covs s2 @ [getCovXYZPxPyPzGlo env (lV0Track s2)]\<rparr>
         else s2)"

section \<open>Properties\<close>

subsection \<open>The V0-to-cascade index\<close>

lemma set_mm_insert: "set (mm_insert e m) = insert e (set m)"
  by (induction m) auto

lemma mm_insert_sorted: "sorted (map fst m) \<Longrightarrow> sorted (map fst (mm_insert e m))"
  by (induction m) (auto simp: set_mm_insert)

lemma filter_key_above:
  "\<forall>x\<in>set (m::multimap). a \<le> fst x \<Longrightarrow> k < a \<Longrightarrow> filter (\<lambda>x. fst x = k) m = []"
  by (induction m) auto

text \<open>An insertion goes behind the entries of its key and leaves the other keys alone.\<close>

lemma filter_mm_insert:
  "sorted (map fst m) \<Longrightarrow>
   filter (\<lambda>x. fst x = k) (mm_insert e m) =
   filter (\<lambda>x. fst x = k) m @ (if fst e = k then [e] else [])"
  by (induction m) (auto simp: filter_key_above)

lemma takeWhile_sorted_filter:
  "sorted (map fst m) \<Longrightarrow> \<forall>x\<in>set (m::multimap). k \<le> fst x \<Longrightarrow>
   takeWhile (\<lambda>x. \<not> k < fst x) m = filter (\<lambda>x. fst x = k) m"
  by (induction m) (auto simp: filter_key_above)

text \<open>On an ordered container the equal range of a key is the entries of that key.\<close>

lemma equal_range_filter:
  "sorted (map fst m) \<Longrightarrow> equal_range m k = filter (\<lambda>x. fst x = k) m"
  unfolding equal_range_def
proof (induction m)
  case Nil
  show ?case by simp
next
  case (Cons x m)
  show ?case
  proof (cases "fst x < k")
    case True
    with Cons show ?thesis by simp
  next
    case False
    with Cons.prems have "\<forall>y\<in>set (x # m). k \<le> fst y" by auto
    with Cons.prems False show ?thesis
      using takeWhile_sorted_filter [of "x # m" k] by simp
  qed
qed

lemma foldl_mm_insert_sorted:
  "sorted (map fst m) \<Longrightarrow>
   sorted (map fst (foldl (\<lambda>m c. mm_insert (cr_v0 c, cr_globalIndex c) m) m cs))"
  by (induction cs arbitrary: m) (auto simp: mm_insert_sorted)

lemma foldl_mm_insert_filter:
  "sorted (map fst m) \<Longrightarrow>
   filter (\<lambda>x. fst x = k) (foldl (\<lambda>m c. mm_insert (cr_v0 c, cr_globalIndex c) m) m cs) =
   filter (\<lambda>x. fst x = k) m @
   map (\<lambda>c. (cr_v0 c, cr_globalIndex c)) (filter (\<lambda>c. cr_v0 c = k) cs)"
  by (induction cs arbitrary: m) (auto simp: mm_insert_sorted filter_mm_insert)

lemma foldl_snoc_map: "foldl (\<lambda>arr e. arr @ [f e]) acc xs = acc @ map f xs"
  by (induction xs arbitrary: acc) auto

lemma lCascadeArray_eq:
  "lCascadeArray (stdV0ToCascMap cascades) v0 =
   map cr_globalIndex (filter (\<lambda>c. cr_v0 c = v0) cascades)"
  by (simp add: lCascadeArray_def stdV0ToCascMap_def foldl_snoc_map equal_range_filter
      foldl_mm_insert_sorted foldl_mm_insert_filter comp_def)

text \<open>
  Claim C5. For any list of cascades and any list of V0s, the row written for a V0 holds
  the global indices of exactly the cascades of the list whose V0 is that one, in the order
  of the list; the lookup has no failing case, and for a V0 that no cascade refers to the
  row is empty.
\<close>

theorem C5_index_lookup:
  "produceV0ToCascMap V0s cascades =
     map (\<lambda>v0. map cr_globalIndex (filter (\<lambda>c. cr_v0 c = v0) cascades)) V0s
   \<and> (v0 \<notin> cr_v0 ` set cascades \<longrightarrow> lCascadeArray (stdV0ToCascMap cascades) v0 = [])"
  by (auto simp: produceV0ToCascMap_def lCascadeArray_eq filter_empty_conv)

theorem C5_index_lookup_witness:
  "(7::int) \<notin> cr_v0 ` set [\<lparr>cr_v0 = 6, cr_globalIndex = 0\<rparr>, \<lparr>cr_v0 = 5, cr_globalIndex = 1\<rparr>,
                             \<lparr>cr_v0 = 6, cr_globalIndex = 2\<rparr>]
   \<and> produceV0ToCascMap [5, 7, 6]
        [\<lparr>cr_v0 = 6, cr_globalIndex = 0\<rparr>, \<lparr>cr_v0 = 5, cr_globalIndex = 1\<rparr>,
         \<lparr>cr_v0 = 6, cr_globalIndex = 2\<rparr>] = [[1], [], [0, 2]]
   \<and> lCascadeArray (stdV0ToCascMap
        [\<lparr>cr_v0 = 6, cr_globalIndex = 0\<rparr>, \<lparr>cr_v0 = 5, cr_globalIndex = 1\<rparr>,
         \<lparr>cr_v0 = 6, cr_globalIndex = 2\<rparr>]) 7 = []"
  using C5_index_lookup [of "[5, 7, 6]"
      "[\<lparr>cr_v0 = 6, cr_globalIndex = 0\<rparr>, \<lparr>cr_v0 = 5, cr_globalIndex = 1\<rparr>,
        \<lparr>cr_v0 = 6, cr_globalIndex = 2\<rparr>]" 7]
  by simp

subsection \<open>Invariants of the two loops\<close>

text \<open>
  A property of the state that every step of the loop over the cascades keeps holds in
  the state in which the loop ends, also when an exception ends it.
\<close>

lemma cascadeLoop_inv:
  assumes "I s"
    and casc: "\<And>s b. I s \<Longrightarrow> I (cand_state (buildCascadeCandidate env cfg collision b l s))"
    and emit: "\<And>s c. I s \<Longrightarrow>
                 I (s\<lparr>cascdata := cascdata s @ [cascdata_of V0 c (v0candidate s) (cascadecandidate s)]\<rparr>)"
    and cov: "\<And>s x. I s \<Longrightarrow> I (s\<lparr>casccovs := x\<rparr>)"
  shows "I (final (cascadeLoop env cfg collision V0 l cs s))"
  using assms(1)
proof (induction cs arbitrary: s)
  case Nil
  then show ?case by (simp add: final_def)
next
  case (Cons c cs)
  from casc [OF Cons.prems, of "bachelor_as c"]
  have 1: "I (cand_state (buildCascadeCandidate env cfg collision (bachelor_as c) l s))" .
  show ?case
  proof (cases "buildCascadeCandidate env cfg collision (bachelor_as c) l s")
    case (Inl a)
    with 1 show ?thesis by (cases a) (simp add: final_def cand_state_def)
  next
    case (Inr a)
    obtain ok s1 where a: "a = (ok, s1)" by (cases a)
    from 1 Inr a have s1: "I s1" by (simp add: cand_state_def)
    show ?thesis
    proof (cases ok)
      case False
      with Inr a Cons.IH [OF s1] show ?thesis by simp
    next
      case True
      from emit [OF s1, of c]
      have 2: "I (s1\<lparr>cascdata := cascdata s1 @ [cascdata_of V0 c (v0candidate s1) (cascadecandidate s1)]\<rparr>)" .
      show ?thesis
      proof (cases "createCascCovMats cfg = 0")
        case z: True
        with True Inr a Cons.IH [OF 2] show ?thesis by (simp add: Let_def)
      next
        case nz: False
        with True Inr a Cons.IH [OF cov [OF 2]] show ?thesis by (simp add: Let_def)
      qed
    qed
  qed
qed

text \<open>The same for the loop over the V0s, which contains the loop over the cascades.\<close>

lemma v0Loop_inv:
  assumes "I s"
    and bv0: "\<And>s (V0::'p v0_in). I s \<Longrightarrow>
        I (snd (buildV0Candidate env cfg collision (posTrack_as V0) (negTrack_as V0) l s))"
    and emit0: "\<And>s (V0::'p v0_in). I s \<Longrightarrow>
        fst (buildV0Candidate env cfg collision (posTrack_as V0) (negTrack_as V0) l s) \<Longrightarrow>
        I ((snd (buildV0Candidate env cfg collision (posTrack_as V0) (negTrack_as V0) l s))
           \<lparr>v0data := v0data (snd (buildV0Candidate env cfg collision (posTrack_as V0) (negTrack_as V0) l s))
              @ [v0data_of (v0candidate (snd (buildV0Candidate env cfg collision (posTrack_as V0) (negTrack_as V0) l s)))]\<rparr>)"
    and cov0: "\<And>s x. I s \<Longrightarrow> I (s\<lparr>v0covs := x\<rparr>)"
    and casc: "\<And>s b. I s \<Longrightarrow> I (cand_state (buildCascadeCandidate env cfg collision b l s))"
    and emit: "\<And>s (V0::'p v0_in) c. I s \<Longrightarrow>
                 I (s\<lparr>cascdata := cascdata s @ [cascdata_of V0 c (v0candidate s) (cascadecandidate s)]\<rparr>)"
    and cov: "\<And>s x. I s \<Longrightarrow> I (s\<lparr>casccovs := x\<rparr>)"
  shows "I (final (v0Loop env cfg collision l V0s s))"
  using assms(1)
proof (induction V0s arbitrary: s)
  case Nil
  then show ?case by (simp add: final_def)
next
  case (Cons V0 V0s)
  obtain ok s1 where b: "buildV0Candidate env cfg collision (posTrack_as V0) (negTrack_as V0) l s = (ok, s1)"
    by (cases "buildV0Candidate env cfg collision (posTrack_as V0) (negTrack_as V0) l s")
  from bv0 [OF Cons.prems, of V0] b have s1: "I s1" by simp
  show ?case
  proof (cases ok)
    case False
    with b Cons.IH [OF s1] show ?thesis by simp
  next
    case True
    from emit0 [OF Cons.prems, of V0] b True
    have s2: "I (s1\<lparr>v0data := v0data s1 @ [v0data_of (v0candidate s1)]\<rparr>)" by simp
    define s3 where "s3 = (if createV0CovMats cfg \<noteq> 0
       then s1\<lparr>v0data := v0data s1 @ [v0data_of (v0candidate s1)],
               v0covs := v0covs s1 @ [getCovXYZPxPyPzGlo env (lV0Track s1)]\<rparr>
       else s1\<lparr>v0data := v0data s1 @ [v0data_of (v0candidate s1)]\<rparr>)"
    have s3: "I s3" using s2 cov0 [OF s2] by (simp add: s3_def)
    have step: "v0Loop env cfg collision l (V0 # V0s) s =
      (if createCascades cfg = 0 then v0Loop env cfg collision l V0s s3
       else (case cascadeLoop env cfg collision V0 l (cascadeCandidate V0) s3 of
             Inl e \<Rightarrow> Inl e | Inr s4 \<Rightarrow> v0Loop env cfg collision l V0s s4))"
      using b True by (simp add: s3_def Let_def)
    show ?thesis
    proof (cases "createCascades cfg = 0")
      case z: True
      with step Cons.IH [OF s3] show ?thesis by simp
    next
      case nz: False
      have 4: "I (final (cascadeLoop env cfg collision V0 l (cascadeCandidate V0) s3))"
      proof (rule cascadeLoop_inv [where I = I])
        show "I s3" by (rule s3)
      qed (simp_all add: casc emit cov)
      show ?thesis
      proof (cases "cascadeLoop env cfg collision V0 l (cascadeCandidate V0) s3")
        case (Inl a)
        with 4 step nz show ?thesis by (cases a) (simp add: final_def)
      next
        case (Inr s4)
        with 4 have "I s4" by (simp add: final_def)
        from Cons.IH [OF this] step nz Inr show ?thesis by simp
      qed
    qed
  qed
qed

subsection \<open>What the builders leave untouched\<close>

lemmas demo_defs = demo_env_def demo_cfg_def demo_track_def demo_collision_def demo_state_def
  demo_cascade_def demo_V0_def demo_process_def demo_fit_def demo_sqrt_def
  demo_sqrtSumOfSquares_def demo_cpa_def demo_m_def demo_pos_def demo_neg_def demo_v0state_def
  demo_env_near_def demo_v0state_near_def

lemmas run_defs = buildStrangenessTables_def buildV0Candidate_def buildCascadeCandidate_def
  Let_def vec_add_def fill_def v0data_of_def cascdata_of_def flt_sub_def final_def
  cand_state_def cand_ok_def vec_to_float_def float_round_def round_even_def pow2_def
  float_exponent.simps

text \<open>
  The concrete inputs, evaluated once: the state after the concrete V0, under both
  environments, and the tables after the concrete V0 with one cascade.
\<close>

lemmas demo_consts = demo_env_def demo_cfg_def demo_track_def demo_collision_def demo_state_def
  demo_cascade_def demo_V0_def demo_process_def demo_fit_def demo_sqrt_def
  demo_sqrtSumOfSquares_def demo_cpa_def demo_m_def demo_pos_def demo_neg_def demo_env_near_def

lemma demo_v0state_eval:
  "demo_v0state =
     \<lparr>registry = (\<lambda>h b. 0)(hV0Criteria := (\<lambda>b. 0)
          (0 := Suc 0, Suc 0 := Suc 0, 2 := Suc 0, 3 := Suc 0, 4 := Suc 0, 5 := Suc 0, 6 := Suc 0)),
      fitter = \<lparr>getPCACandidate = (Fin 6, Fin 0, Fin 0), getChi2AtPCACandidate = Fin 1,
                getTrack0 = 1, getTrack1 = 2, createParentTrackParCov = 3\<rparr>,
      fitterCalls = [(V0Fit, 1, 2)],
      lPositiveTrack = 1, lNegativeTrack = 2, lBachelorTrack = 0, lV0Track = 3, lCascadeTrack = 0,
      v0candidate =
        \<lparr>posTrackId = 0, negTrackId = 0, collisionId = 0, globalIndex = 0,
         posTrackX = Fin 0, negTrackX = Fin 0,
         pos = (Fin 6, Fin 0, Fin 0), posP = (Fin 1, Fin 0, Fin 0), negP = (Fin 2, Fin 0, Fin 0),
         dcaV0dau = Fin 1, posDCAxy = Fin 0, negDCAxy = Fin 0, cosPA = Fin 1, V0radius = Fin 6,
         lambdaMass = Fin (4679585 / 4194304), antilambdaMass = Fin (5 / 4)\<rparr>,
      cascadecandidate = cascadecandidate demo_state,
      v0data = [], cascdata = [], v0covs = [], casccovs = []\<rparr>"
  by (simp add: run_defs demo_defs)

lemma demo_v0state_near_eval:
  "demo_v0state_near =
     demo_v0state\<lparr>v0candidate := (v0candidate demo_v0state)
        \<lparr>cosPA := Fin (8346665 / 8388608), V0radius := Fin 5,
         lambdaMass := Fin (9445573 / 8388608), antilambdaMass := Fin (9445573 / 8388608)\<rparr>\<rparr>"
  by (simp add: run_defs demo_defs)

lemma demo_bV0:
  "buildV0Candidate demo_env demo_cfg demo_collision demo_pos (demo_neg 2) True demo_state
     = (True, demo_v0state)"
  "buildV0Candidate demo_env_near demo_cfg demo_collision demo_pos (demo_neg 2) True demo_state
     = (True, demo_v0state_near)"
  by (simp_all add: prod_eq_iff demo_v0state_def demo_v0state_near_def)
     (simp_all add: run_defs demo_consts)

lemma demo_run_eval:
  "\<exists>st. buildStrangenessTables demo_env demo_cfg demo_collision
           [demo_V0 2 [demo_cascade 5 (Fin 0.2) (Fin (- 1))]] True demo_state = Inr st
     \<and> map row_unwritten (v0data st) = [(0, 0, 0, 0, Fin 0, Fin 0, Fin 0, Fin 0)]
     \<and> map (\<lambda>k. (k_posDCAxy k, k_negDCAxy k)) (cascdata st) = [(Fin 0, Fin 0)]
     \<and> length (v0data st) = 1 \<and> length (cascdata st) = 1
     \<and> cascadeFits st = [(CascadeFit, 3, 5)]"
  by (simp add: run_defs demo_consts row_unwritten_def cascadeFits_def)

lemma bV0_unwritten:
  "unwritten (v0candidate (snd (buildV0Candidate env cfg collision p n l s))) =
   unwritten (v0candidate s)"
  by (simp add: buildV0Candidate_def Let_def unwritten_def split: fit_outcome.splits)

lemma bV0_tables:
  "v0data (snd (buildV0Candidate env cfg collision p n l s)) = v0data s"
  "v0covs (snd (buildV0Candidate env cfg collision p n l s)) = v0covs s"
  "cascdata (snd (buildV0Candidate env cfg collision p n l s)) = cascdata s"
  "casccovs (snd (buildV0Candidate env cfg collision p n l s)) = casccovs s"
  by (simp_all add: buildV0Candidate_def Let_def split: fit_outcome.splits)

lemma bCasc_v0candidate:
  "v0candidate (cand_state (buildCascadeCandidate env cfg collision b l s)) = v0candidate s"
  by (simp add: buildCascadeCandidate_def Let_def cand_state_def split: fit_outcome.splits)

lemma bCasc_tables:
  "v0data (cand_state (buildCascadeCandidate env cfg collision b l s)) = v0data s"
  "v0covs (cand_state (buildCascadeCandidate env cfg collision b l s)) = v0covs s"
  "cascdata (cand_state (buildCascadeCandidate env cfg collision b l s)) = cascdata s"
  "casccovs (cand_state (buildCascadeCandidate env cfg collision b l s)) = casccovs s"
  by (simp_all add: buildCascadeCandidate_def Let_def cand_state_def split: fit_outcome.splits)

lemma row_unwritten_v0data_of: "row_unwritten (v0data_of v) = unwritten v"
  by (simp add: row_unwritten_def v0data_of_def unwritten_def)

lemma cascdata_of_unwritten:
  "k_posDCAxy (cascdata_of V0 c v cc) = fst (snd (snd (snd (snd (snd (snd (unwritten v)))))))"
  "k_negDCAxy (cascdata_of V0 c v cc) = snd (snd (snd (snd (snd (snd (snd (unwritten v)))))))"
  by (simp_all add: cascdata_of_def unwritten_def)

lemma unwritten_inv_v0Loop:
  assumes "unwritten_inv u n m s"
  shows "unwritten_inv u n m (final (v0Loop env cfg collision l V0s s))"
proof (rule v0Loop_inv [where I = "unwritten_inv u n m"])
  show "unwritten_inv u n m s" by (rule assms)
qed (auto simp: unwritten_inv_def bV0_unwritten bV0_tables bCasc_v0candidate bCasc_tables
       row_unwritten_v0data_of cascdata_of_unwritten)

text \<open>
  Claim C9. \<^verbatim>\<open>buildV0Candidate\<close> leaves the fields \<^verbatim>\<open>posTrackId\<close>, \<^verbatim>\<open>negTrackId\<close>,
  \<^verbatim>\<open>collisionId\<close>, \<^verbatim>\<open>globalIndex\<close>, \<^verbatim>\<open>posTrackX\<close>, \<^verbatim>\<open>negTrackX\<close>, \<^verbatim>\<open>posDCAxy\<close> and
  \<^verbatim>\<open>negDCAxy\<close> of \<^verbatim>\<open>v0candidate\<close> as they were. Every V0 row that
  \<^verbatim>\<open>buildStrangenessTables\<close> appends carries, in the columns filled from these fields, the
  values the fields had when it started, and every cascade row it appends carries those
  of \<^verbatim>\<open>posDCAxy\<close> and \<^verbatim>\<open>negDCAxy\<close>.
\<close>

theorem C9_unwritten_fields:
  "unwritten (v0candidate (snd (buildV0Candidate env cfg collision posTrack negTrack lRun3 s)))
     = unwritten (v0candidate s)
   \<and> (\<forall>r \<in> set (drop (length (v0data s))
          (v0data (final (buildStrangenessTables env cfg collision V0s lRun3 s)))).
        row_unwritten r = unwritten (v0candidate s))
   \<and> (\<forall>k \<in> set (drop (length (cascdata s))
          (cascdata (final (buildStrangenessTables env cfg collision V0s lRun3 s)))).
        k_posDCAxy k = posDCAxy (v0candidate s) \<and> k_negDCAxy k = negDCAxy (v0candidate s))"
proof -
  have "unwritten_inv (unwritten (v0candidate s)) (length (v0data s)) (length (cascdata s))
          (s\<lparr>registry := fill hEventCounter 0 (registry s)\<rparr>)"
    by (simp add: unwritten_inv_def)
  from unwritten_inv_v0Loop [OF this]
  have "unwritten_inv (unwritten (v0candidate s)) (length (v0data s)) (length (cascdata s))
          (final (buildStrangenessTables env cfg collision V0s lRun3 s))"
    by (simp add: buildStrangenessTables_def)
  then have rows: "\<forall>r \<in> set (drop (length (v0data s))
          (v0data (final (buildStrangenessTables env cfg collision V0s lRun3 s)))).
        row_unwritten r = unwritten (v0candidate s)"
    and cascs: "\<forall>k \<in> set (drop (length (cascdata s))
          (cascdata (final (buildStrangenessTables env cfg collision V0s lRun3 s)))).
        k_posDCAxy k = posDCAxy (v0candidate s) \<and> k_negDCAxy k = negDCAxy (v0candidate s)"
    by (simp_all add: unwritten_inv_def unwritten_def)
  from bV0_unwritten rows cascs show ?thesis by blast
qed

text \<open>
  On the concrete inputs one V0 row and one cascade row are appended; the daughters are
  half a centimetre from the primary vertex, and the rows hold the zeros of the start.
\<close>

theorem C9_unwritten_fields_witness:
  "map row_unwritten (v0data (final (buildStrangenessTables demo_env demo_cfg demo_collision
      [demo_V0 2 [demo_cascade 5 (Fin 0.2) (Fin (- 1))]] True demo_state)))
     = [(0, 0, 0, 0, Fin 0, Fin 0, Fin 0, Fin 0)]
   \<and> map (\<lambda>k. (k_posDCAxy k, k_negDCAxy k))
        (cascdata (final (buildStrangenessTables demo_env demo_cfg demo_collision
          [demo_V0 2 [demo_cascade 5 (Fin 0.2) (Fin (- 1))]] True demo_state)))
     = [(Fin 0, Fin 0)]
   \<and> unwritten (v0candidate demo_state) = (0, 0, 0, 0, Fin 0, Fin 0, Fin 0, Fin 0)
   \<and> unwritten (v0candidate (snd (buildV0Candidate demo_env demo_cfg demo_collision
        demo_pos (demo_neg 2) True demo_state))) = (0, 0, 0, 0, Fin 0, Fin 0, Fin 0, Fin 0)"
proof -
  from demo_run_eval obtain st
    where r: "buildStrangenessTables demo_env demo_cfg demo_collision
                [demo_V0 2 [demo_cascade 5 (Fin 0.2) (Fin (- 1))]] True demo_state = Inr st"
      and a: "map row_unwritten (v0data st) = [(0, 0, 0, 0, Fin 0, Fin 0, Fin 0, Fin 0)]"
      and b: "map (\<lambda>k. (k_posDCAxy k, k_negDCAxy k)) (cascdata st) = [(Fin 0, Fin 0)]"
    by auto
  have c: "unwritten (v0candidate demo_state) = (0, 0, 0, 0, Fin 0, Fin 0, Fin 0, Fin 0)"
    by (simp add: demo_state_def unwritten_def)
  from C9_unwritten_fields [of demo_env demo_cfg demo_collision demo_pos "demo_neg 2" True
      demo_state] c
  have d: "unwritten (v0candidate (snd (buildV0Candidate demo_env demo_cfg demo_collision
        demo_pos (demo_neg 2) True demo_state))) = (0, 0, 0, 0, Fin 0, Fin 0, Fin 0, Fin 0)"
    by simp
  from a b c d show ?thesis unfolding r final_def by simp
qed

subsection \<open>The gates of the V0 pipeline\<close>

lemma flt_not_less_le: "\<not> flt_less a b \<Longrightarrow> a \<noteq> NaN \<Longrightarrow> b \<noteq> NaN \<Longrightarrow> flt_le b a"
  by (cases a; cases b) auto

lemma bV0_accepted:
  "buildV0Candidate env cfg collision p n l s = (True, s') \<Longrightarrow>
   pos (v0candidate s') = vec_to_float (getPCACandidate (fitter s'))
   \<and> cosPA (v0candidate s') = to_float (cpa env (posX collision, posY collision, posZ collision)
        (pos (v0candidate s')) (vec_add (posP (v0candidate s')) (negP (v0candidate s'))))
   \<and> V0radius (v0candidate s') = to_float
        (sqrtSumOfSquares env (fst (pos (v0candidate s'))) (fst (snd (pos (v0candidate s')))))
   \<and> \<not> flt_less (cosPA (v0candidate s')) (v0cospa cfg)
   \<and> \<not> flt_less (V0radius (v0candidate s')) (v0radius cfg)"
  by (auto simp add: buildV0Candidate_def Let_def split: if_splits fit_outcome.splits)

text \<open>
  Claim C3. When the absolute transverse impact parameter of the positive daughter is
  below \<^verbatim>\<open>dcapostopv\<close>, or that of the negative daughter is below \<^verbatim>\<open>dcanegtopv\<close>, the
  V0 pipeline rejects the pair and has not called the fitter: the record of calls and the
  fitter are as before, and the counter behind the gate is not filled.
\<close>

theorem C3_dca_gate_before_fit:
  "flt_less (flt_abs (dcaXY posTrack)) (dcapostopv cfg)
     \<or> flt_less (flt_abs (dcaXY negTrack)) (dcanegtopv cfg) \<Longrightarrow>
   \<not> fst (buildV0Candidate env cfg collision posTrack negTrack lRun3 s)
   \<and> fitterCalls (snd (buildV0Candidate env cfg collision posTrack negTrack lRun3 s)) = fitterCalls s
   \<and> fitter (snd (buildV0Candidate env cfg collision posTrack negTrack lRun3 s)) = fitter s
   \<and> registry (snd (buildV0Candidate env cfg collision posTrack negTrack lRun3 s)) hV0Criteria 3
       = registry s hV0Criteria 3"
  by (simp add: buildV0Candidate_def Let_def fill_def)

theorem C3_dca_gate_before_fit_witness:
  "flt_less (flt_abs (dcaXY (demo_track 11 1 (Fin (- 0.05)) (Fin 1)))) (dcapostopv demo_cfg)
   \<and> \<not> fst (buildV0Candidate demo_env demo_cfg demo_collision
            (demo_track 11 1 (Fin (- 0.05)) (Fin 1)) (demo_neg 2) True demo_state)
   \<and> fitterCalls (snd (buildV0Candidate demo_env demo_cfg demo_collision
            (demo_track 11 1 (Fin (- 0.05)) (Fin 1)) (demo_neg 2) True demo_state)) = []"
  using C3_dca_gate_before_fit [of "demo_track 11 1 (Fin (- 0.05)) (Fin 1)" demo_cfg "demo_neg 2"
      demo_env demo_collision True demo_state]
  by (simp add: run_defs demo_defs)

lemma v0row_passes_accepted:
  "buildV0Candidate env cfg collision p n l s = (True, s') \<Longrightarrow>
   v0row_passes env cfg collision (v0data_of (v0candidate s'))"
  by (auto simp add: buildV0Candidate_def Let_def v0row_passes_def v0data_of_def
      split: if_splits fit_outcome.splits)

lemma v0rows_inv_v0Loop:
  assumes "v0rows_inv env cfg collision n s"
  shows "v0rows_inv env cfg collision n (final (v0Loop env cfg collision l V0s s))"
proof (rule v0Loop_inv [where I = "v0rows_inv env cfg collision n"])
  show "v0rows_inv env cfg collision n s" by (rule assms)
next
  fix s :: "'a strangenessBuilder" and V0 :: "'a v0_in"
  assume inv: "v0rows_inv env cfg collision n s"
    and ok: "fst (buildV0Candidate env cfg collision (posTrack_as V0) (negTrack_as V0) l s)"
  obtain s1 where b: "buildV0Candidate env cfg collision (posTrack_as V0) (negTrack_as V0) l s = (True, s1)"
    using ok by (cases "buildV0Candidate env cfg collision (posTrack_as V0) (negTrack_as V0) l s") auto
  from v0row_passes_accepted [OF b] inv bV0_tables(1) [of env cfg collision "posTrack_as V0" "negTrack_as V0" l s] b
  show "v0rows_inv env cfg collision n
          ((snd (buildV0Candidate env cfg collision (posTrack_as V0) (negTrack_as V0) l s))
           \<lparr>v0data := v0data (snd (buildV0Candidate env cfg collision (posTrack_as V0) (negTrack_as V0) l s))
              @ [v0data_of (v0candidate (snd (buildV0Candidate env cfg collision (posTrack_as V0) (negTrack_as V0) l s)))]\<rparr>)"
    by (auto simp: v0rows_inv_def)
qed (auto simp: v0rows_inv_def bV0_tables bCasc_tables)

text \<open>
  Claim C4, as amended. For every V0 candidate that the V0 pipeline accepts, the value of
  the \<^verbatim>\<open>float\<close> field \<^verbatim>\<open>cosPA\<close>, which is the cosine of the pointing angle computed from
  the primary vertex, the stored decay vertex and the sum of the daughter momenta and then
  converted to \<^verbatim>\<open>float\<close>, is not below \<^verbatim>\<open>v0cospa\<close>, and the value of the \<^verbatim>\<open>float\<close> field
  \<^verbatim>\<open>V0radius\<close>, which is the transverse radius of the stored vertex converted to \<^verbatim>\<open>float\<close>,
  is not below \<^verbatim>\<open>v0radius\<close>: each stored value is greater than or equal to its minimum
  unless it, or the minimum, is not a number. The same holds for the two quantities
  recomputed and converted from any V0 row that \<^verbatim>\<open>buildStrangenessTables\<close> appends.
  Nothing is said of the cosine and the radius before the conversion.
\<close>

theorem C4_accepted_not_below_minimum:
  "(buildV0Candidate env cfg collision posTrack negTrack lRun3 s = (True, s') \<longrightarrow>
      pos (v0candidate s') = vec_to_float (getPCACandidate (fitter s'))
      \<and> cosPA (v0candidate s') = to_float (cpa env (posX collision, posY collision, posZ collision)
           (pos (v0candidate s')) (vec_add (posP (v0candidate s')) (negP (v0candidate s'))))
      \<and> V0radius (v0candidate s') = to_float
           (sqrtSumOfSquares env (fst (pos (v0candidate s'))) (fst (snd (pos (v0candidate s')))))
      \<and> \<not> flt_less (cosPA (v0candidate s')) (v0cospa cfg)
      \<and> \<not> flt_less (V0radius (v0candidate s')) (v0radius cfg)
      \<and> (cosPA (v0candidate s') \<noteq> NaN \<and> v0cospa cfg \<noteq> NaN \<longrightarrow>
           flt_le (v0cospa cfg) (cosPA (v0candidate s')))
      \<and> (V0radius (v0candidate s') \<noteq> NaN \<and> v0radius cfg \<noteq> NaN \<longrightarrow>
           flt_le (v0radius cfg) (V0radius (v0candidate s'))))
   \<and> (\<forall>r \<in> set (drop (length (v0data s))
          (v0data (final (buildStrangenessTables env cfg collision V0s lRun3 s)))).
        v0row_passes env cfg collision r)"
proof -
  have "v0rows_inv env cfg collision (length (v0data s))
          (s\<lparr>registry := fill hEventCounter 0 (registry s)\<rparr>)"
    by (simp add: v0rows_inv_def)
  from v0rows_inv_v0Loop [OF this]
  have rows: "\<forall>r \<in> set (drop (length (v0data s))
          (v0data (final (buildStrangenessTables env cfg collision V0s lRun3 s)))).
        v0row_passes env cfg collision r"
    by (simp add: buildStrangenessTables_def v0rows_inv_def)
  from bV0_accepted [of env cfg collision posTrack negTrack lRun3 s s'] flt_not_less_le rows
  show ?thesis by blast
qed

text \<open>
  Claim C4 as stated fails, for two reasons. The gates compare the \<^verbatim>\<open>float\<close> fields: a
  computed cosine 0.99499999929 and a computed radius 4.9999998 are below the minima 0.995
  and 5, their conversions to \<^verbatim>\<open>float\<close> are not, and the candidate is accepted. And both
  gates reject on \<open><\<close>, which is false for a value that is not a number: a fit that reports
  a candidate whose vertex is not a number is accepted, with a cosine and a radius that
  are not greater than or equal to anything, and its row is written; so is a candidate
  whose fitted vertex \<open>(6, 0, 0)\<close> is the primary vertex, where the line of flight has
  length zero and its cosine is not a number.
\<close>

theorem C4_counterexample:
  "fst (buildV0Candidate demo_env_near demo_cfg demo_collision demo_pos (demo_neg 2) True demo_state)
   \<and> cpa demo_env_near (posX demo_collision, posY demo_collision, posZ demo_collision)
        (pos (v0candidate (snd (buildV0Candidate demo_env_near demo_cfg demo_collision demo_pos
           (demo_neg 2) True demo_state))))
        (vec_add (posP (v0candidate (snd (buildV0Candidate demo_env_near demo_cfg demo_collision
           demo_pos (demo_neg 2) True demo_state))))
         (negP (v0candidate (snd (buildV0Candidate demo_env_near demo_cfg demo_collision
           demo_pos (demo_neg 2) True demo_state))))) = Fin 0.99499999929
   \<and> \<not> flt_le (v0cospa demo_cfg) (Fin 0.99499999929)
   \<and> cosPA (v0candidate (snd (buildV0Candidate demo_env_near demo_cfg demo_collision demo_pos
        (demo_neg 2) True demo_state))) = Fin (16693330 / 16777216)
   \<and> sqrtSumOfSquares demo_env_near
        (fst (pos (v0candidate (snd (buildV0Candidate demo_env_near demo_cfg demo_collision
           demo_pos (demo_neg 2) True demo_state)))))
        (fst (snd (pos (v0candidate (snd (buildV0Candidate demo_env_near demo_cfg demo_collision
           demo_pos (demo_neg 2) True demo_state)))))) = Fin 4.9999998
   \<and> \<not> flt_le (v0radius demo_cfg) (Fin 4.9999998)
   \<and> V0radius (v0candidate (snd (buildV0Candidate demo_env_near demo_cfg demo_collision demo_pos
        (demo_neg 2) True demo_state))) = Fin 5
   \<and> length (v0data (final (buildStrangenessTables demo_env_near demo_cfg demo_collision
        [demo_V0 2 []] True demo_state))) = 1
   \<and> fst (buildV0Candidate demo_env demo_cfg demo_collision demo_pos (demo_neg 7) True demo_state)
   \<and> cosPA (v0candidate (snd (buildV0Candidate demo_env demo_cfg demo_collision demo_pos
        (demo_neg 7) True demo_state))) = NaN
   \<and> \<not> flt_le (v0cospa demo_cfg) (cosPA (v0candidate (snd (buildV0Candidate demo_env demo_cfg
        demo_collision demo_pos (demo_neg 7) True demo_state))))
   \<and> \<not> flt_le (v0radius demo_cfg) (V0radius (v0candidate (snd (buildV0Candidate demo_env demo_cfg
        demo_collision demo_pos (demo_neg 7) True demo_state))))
   \<and> map r_pos (v0data (final (buildStrangenessTables demo_env demo_cfg demo_collision
        [demo_V0 7 []] True demo_state))) = [(NaN, NaN, NaN)]
   \<and> fst (buildV0Candidate demo_env demo_cfg \<lparr>posX = Fin 6, posY = Fin 0, posZ = Fin 0\<rparr>
        demo_pos (demo_neg 2) True demo_state)
   \<and> pos (v0candidate (snd (buildV0Candidate demo_env demo_cfg
        \<lparr>posX = Fin 6, posY = Fin 0, posZ = Fin 0\<rparr> demo_pos (demo_neg 2) True demo_state)))
      = (Fin 6, Fin 0, Fin 0)
   \<and> \<not> flt_le (v0cospa demo_cfg) (cosPA (v0candidate (snd (buildV0Candidate demo_env demo_cfg
        \<lparr>posX = Fin 6, posY = Fin 0, posZ = Fin 0\<rparr> demo_pos (demo_neg 2) True demo_state))))"
proof -
  have a1: "fst (buildV0Candidate demo_env_near demo_cfg demo_collision demo_pos (demo_neg 2) True demo_state)"
    unfolding demo_bV0 by simp
  have a2: "cpa demo_env_near (posX demo_collision, posY demo_collision, posZ demo_collision)
        (pos (v0candidate (snd (buildV0Candidate demo_env_near demo_cfg demo_collision demo_pos
           (demo_neg 2) True demo_state))))
        (vec_add (posP (v0candidate (snd (buildV0Candidate demo_env_near demo_cfg demo_collision
           demo_pos (demo_neg 2) True demo_state))))
         (negP (v0candidate (snd (buildV0Candidate demo_env_near demo_cfg demo_collision
           demo_pos (demo_neg 2) True demo_state))))) = Fin 0.99499999929"
    by (simp add: demo_env_near_def)
  have a3: "\<not> flt_le (v0cospa demo_cfg) (Fin 0.99499999929)"
    and a6: "\<not> flt_le (v0radius demo_cfg) (Fin 4.9999998)"
    by (simp_all add: demo_cfg_def)
  have a4: "cosPA (v0candidate (snd (buildV0Candidate demo_env_near demo_cfg demo_collision demo_pos
        (demo_neg 2) True demo_state))) = Fin (16693330 / 16777216)"
    and a7: "V0radius (v0candidate (snd (buildV0Candidate demo_env_near demo_cfg demo_collision demo_pos
        (demo_neg 2) True demo_state))) = Fin 5"
    unfolding demo_bV0 by (simp_all add: demo_v0state_near_eval)
  have a5: "sqrtSumOfSquares demo_env_near
        (fst (pos (v0candidate (snd (buildV0Candidate demo_env_near demo_cfg demo_collision
           demo_pos (demo_neg 2) True demo_state)))))
        (fst (snd (pos (v0candidate (snd (buildV0Candidate demo_env_near demo_cfg demo_collision
           demo_pos (demo_neg 2) True demo_state)))))) = Fin 4.9999998"
    by (simp add: demo_env_near_def)
  have a8: "length (v0data (final (buildStrangenessTables demo_env_near demo_cfg demo_collision
        [demo_V0 2 []] True demo_state))) = 1"
    by (simp add: run_defs demo_consts)
  have "\<exists>st. buildV0Candidate demo_env demo_cfg demo_collision demo_pos (demo_neg 7) True
            demo_state = (True, st)
          \<and> cosPA (v0candidate st) = NaN \<and> V0radius (v0candidate st) = NaN"
    by (simp add: run_defs demo_consts)
  then obtain st1
    where e1: "buildV0Candidate demo_env demo_cfg demo_collision demo_pos (demo_neg 7) True
            demo_state = (True, st1)"
      and p1: "cosPA (v0candidate st1) = NaN" "V0radius (v0candidate st1) = NaN"
    by blast
  have b1: "fst (buildV0Candidate demo_env demo_cfg demo_collision demo_pos (demo_neg 7) True demo_state)"
    and b2: "cosPA (v0candidate (snd (buildV0Candidate demo_env demo_cfg demo_collision demo_pos
        (demo_neg 7) True demo_state))) = NaN"
    and b3: "\<not> flt_le (v0cospa demo_cfg) (cosPA (v0candidate (snd (buildV0Candidate demo_env demo_cfg
        demo_collision demo_pos (demo_neg 7) True demo_state))))"
    and b4: "\<not> flt_le (v0radius demo_cfg) (V0radius (v0candidate (snd (buildV0Candidate demo_env demo_cfg
        demo_collision demo_pos (demo_neg 7) True demo_state))))"
    unfolding e1 by (simp_all add: p1 demo_cfg_def)
  have b5: "map r_pos (v0data (final (buildStrangenessTables demo_env demo_cfg demo_collision
        [demo_V0 7 []] True demo_state))) = [(NaN, NaN, NaN)]"
    by (simp add: run_defs demo_consts)
  have "\<exists>st. buildV0Candidate demo_env demo_cfg \<lparr>posX = Fin 6, posY = Fin 0, posZ = Fin 0\<rparr>
            demo_pos (demo_neg 2) True demo_state = (True, st)
          \<and> pos (v0candidate st) = (Fin 6, Fin 0, Fin 0) \<and> cosPA (v0candidate st) = NaN"
    by (simp add: run_defs demo_consts)
  then obtain st2
    where e2: "buildV0Candidate demo_env demo_cfg \<lparr>posX = Fin 6, posY = Fin 0, posZ = Fin 0\<rparr>
            demo_pos (demo_neg 2) True demo_state = (True, st2)"
      and p2: "pos (v0candidate st2) = (Fin 6, Fin 0, Fin 0)" "cosPA (v0candidate st2) = NaN"
    by blast
  have c1: "fst (buildV0Candidate demo_env demo_cfg \<lparr>posX = Fin 6, posY = Fin 0, posZ = Fin 0\<rparr>
        demo_pos (demo_neg 2) True demo_state)"
    and c2: "pos (v0candidate (snd (buildV0Candidate demo_env demo_cfg
        \<lparr>posX = Fin 6, posY = Fin 0, posZ = Fin 0\<rparr> demo_pos (demo_neg 2) True demo_state)))
      = (Fin 6, Fin 0, Fin 0)"
    and c3: "\<not> flt_le (v0cospa demo_cfg) (cosPA (v0candidate (snd (buildV0Candidate demo_env demo_cfg
        \<lparr>posX = Fin 6, posY = Fin 0, posZ = Fin 0\<rparr> demo_pos (demo_neg 2) True demo_state))))"
    unfolding e2 by (simp_all add: p2 demo_cfg_def)
  show ?thesis by (intro conjI a1 a2 a3 a4 a5 a6 a7 a8 b1 b2 b3 b4 b5 c1 c2 c3)
qed

theorem C4_accepted_not_below_minimum_witness:
  "buildV0Candidate demo_env demo_cfg demo_collision demo_pos (demo_neg 2) True demo_state
     = (True, demo_v0state)
   \<and> cosPA (v0candidate demo_v0state) = Fin 1
   \<and> V0radius (v0candidate demo_v0state) = Fin 6
   \<and> v0cospa demo_cfg = Fin 0.995 \<and> v0radius demo_cfg = Fin 5
   \<and> flt_le (v0cospa demo_cfg) (cosPA (v0candidate demo_v0state))
   \<and> flt_le (v0radius demo_cfg) (V0radius (v0candidate demo_v0state))
   \<and> map (v0row_passes demo_env demo_cfg demo_collision)
        (drop (length (v0data demo_state))
          (v0data (final (buildStrangenessTables demo_env demo_cfg demo_collision
             [demo_V0 2 []] True demo_state)))) = [True]"
proof -
  have v: "cosPA (v0candidate demo_v0state) = Fin 1" "V0radius (v0candidate demo_v0state) = Fin 6"
    "v0cospa demo_cfg = Fin 0.995" "v0radius demo_cfg = Fin 5"
    by (simp_all add: demo_v0state_eval demo_cfg_def)
  have rows: "map (v0row_passes demo_env demo_cfg demo_collision)
        (drop (length (v0data demo_state))
          (v0data (final (buildStrangenessTables demo_env demo_cfg demo_collision
             [demo_V0 2 []] True demo_state)))) = [True]"
    by (simp add: run_defs demo_consts v0row_passes_def)
  have nn: "cosPA (v0candidate demo_v0state) \<noteq> NaN" "v0cospa demo_cfg \<noteq> NaN"
    "V0radius (v0candidate demo_v0state) \<noteq> NaN" "v0radius demo_cfg \<noteq> NaN"
    by (simp_all add: v)
  from C4_accepted_not_below_minimum [of demo_env demo_cfg demo_collision demo_pos "demo_neg 2"
      True demo_state demo_v0state "[demo_V0 2 []]"] demo_bV0(1) nn
  have d: "flt_le (v0cospa demo_cfg) (cosPA (v0candidate demo_v0state))"
    "flt_le (v0radius demo_cfg) (V0radius (v0candidate demo_v0state))"
    by blast+
  from demo_bV0(1) v rows d show ?thesis by blast
qed

subsection \<open>The gates of the cascade pipeline\<close>

text \<open>
  Claim C10. The bachelor gate compares the signed \<^verbatim>\<open>dcaXY\<close> with \<^verbatim>\<open>dcabachtopv\<close>: a
  bachelor whose \<^verbatim>\<open>dcaXY\<close> is below the minimum is rejected right after the entry counter
  and the copy of \<^verbatim>\<open>dcaXY\<close>; in particular every negative \<^verbatim>\<open>dcaXY\<close> is rejected, whatever
  its magnitude, when the minimum is positive. The V0 gate above takes the absolute value.
\<close>

theorem C10_bachelor_gate_signed:
  "(flt_less (dcaXY bachTrack) (dcabachtopv cfg) \<longrightarrow>
      buildCascadeCandidate env cfg collision bachTrack lRun3 s =
        Inr (False, s\<lparr>registry := fill hCascadeCriteria 0 (registry s),
                      cascadecandidate := (cascadecandidate s)\<lparr>c_bachDCAxy := dcaXY bachTrack\<rparr>\<rparr>))
   \<and> (dcaXY bachTrack = Fin x \<and> dcabachtopv cfg = Fin t \<and> x < 0 \<and> 0 < t \<longrightarrow>
        \<not> cand_ok (buildCascadeCandidate env cfg collision bachTrack lRun3 s)
        \<and> fitterCalls (cand_state (buildCascadeCandidate env cfg collision bachTrack lRun3 s))
            = fitterCalls s
        \<and> registry (cand_state (buildCascadeCandidate env cfg collision bachTrack lRun3 s))
             hCascadeCriteria 1 = registry s hCascadeCriteria 1)"
  by (simp add: buildCascadeCandidate_def Let_def cand_ok_def cand_state_def fill_def)

theorem C10_bachelor_gate_signed_witness:
  "dcaXY (demo_track 20 5 (Fin (- 3)) (Fin (- 1))) = Fin (- 3) \<and> dcabachtopv demo_cfg = Fin 0.05
   \<and> (- 3 :: real) < 0 \<and> (0 :: real) < 0.05
   \<and> flt_less (dcaXY (demo_track 20 5 (Fin (- 3)) (Fin (- 1)))) (dcabachtopv demo_cfg)
   \<and> \<not> flt_less (flt_abs (dcaXY (demo_track 20 5 (Fin (- 3)) (Fin (- 1))))) (dcabachtopv demo_cfg)
   \<and> \<not> cand_ok (buildCascadeCandidate demo_env demo_cfg demo_collision
          (demo_track 20 5 (Fin (- 3)) (Fin (- 1))) True demo_state)
   \<and> fitterCalls (cand_state (buildCascadeCandidate demo_env demo_cfg demo_collision
          (demo_track 20 5 (Fin (- 3)) (Fin (- 1))) True demo_state)) = []"
  using C10_bachelor_gate_signed [of "demo_track 20 5 (Fin (- 3)) (Fin (- 1))" demo_cfg demo_env
      demo_collision True demo_state "- 3" "0.05"]
  by (simp add: run_defs demo_defs)

text \<open>
  Claim C1. A cascade candidate reaches the gate on the distance between the cascade
  daughters when the counter in front of it (\<^verbatim>\<open>hCascadeCriteria\<close> at 4.5) is filled. For
  every such candidate \<^verbatim>\<open>dcacascdau\<close> has been set to the square root of the chi-square
  of the fit (converted to \<^verbatim>\<open>float\<close>, as the radius is), and the candidate is rejected if
  and only if its transverse radius \<^verbatim>\<open>cascradius\<close> is below the threshold \<^verbatim>\<open>dcacascdau\<close>;
  the distance just computed does not enter the decision.
\<close>

theorem C1_cascade_dca_gate_compares_radius:
  "buildCascadeCandidate env cfg collision bachTrack lRun3 s = Inr (ok, s') \<Longrightarrow>
   registry s' hCascadeCriteria 4 = Suc (registry s hCascadeCriteria 4) \<Longrightarrow>
   c_dcacascdau (cascadecandidate s') =
       to_float (tmath_sqrt env (getChi2AtPCACandidate (fitter s')))
   \<and> c_pos (cascadecandidate s') = vec_to_float (getPCACandidate (fitter s'))
   \<and> c_cascradius (cascadecandidate s') =
       to_float (sqrtSumOfSquares env (fst (c_pos (cascadecandidate s')))
                   (fst (snd (c_pos (cascadecandidate s')))))
   \<and> (\<not> ok) = flt_less (c_cascradius (cascadecandidate s')) (dcacascdau cfg)"
  by (auto simp add: buildCascadeCandidate_def Let_def fill_def split: if_splits fit_outcome.splits)

text \<open>
  With a threshold of 10 the concrete candidate, whose distance 1 is within the threshold,
  is rejected because its radius 6 is below it; with a threshold of 0.5 it is accepted,
  although its distance 1 is beyond the threshold.
\<close>

theorem C1_cascade_dca_gate_compares_radius_witness:
  "buildCascadeCandidate demo_env (demo_cfg\<lparr>dcacascdau := Fin 10\<rparr>) demo_collision
      (demo_track 20 5 (Fin 0.2) (Fin (- 1))) True demo_v0state
     = Inr (False, cand_state (buildCascadeCandidate demo_env (demo_cfg\<lparr>dcacascdau := Fin 10\<rparr>)
          demo_collision (demo_track 20 5 (Fin 0.2) (Fin (- 1))) True demo_v0state))
   \<and> registry (cand_state (buildCascadeCandidate demo_env (demo_cfg\<lparr>dcacascdau := Fin 10\<rparr>)
          demo_collision (demo_track 20 5 (Fin 0.2) (Fin (- 1))) True demo_v0state))
        hCascadeCriteria 4 = Suc (registry demo_v0state hCascadeCriteria 4)
   \<and> c_dcacascdau (cascadecandidate (cand_state (buildCascadeCandidate demo_env
          (demo_cfg\<lparr>dcacascdau := Fin 10\<rparr>) demo_collision
          (demo_track 20 5 (Fin 0.2) (Fin (- 1))) True demo_v0state))) = Fin 1
   \<and> c_cascradius (cascadecandidate (cand_state (buildCascadeCandidate demo_env
          (demo_cfg\<lparr>dcacascdau := Fin 10\<rparr>) demo_collision
          (demo_track 20 5 (Fin 0.2) (Fin (- 1))) True demo_v0state))) = Fin 6
   \<and> flt_less (Fin 6) (dcacascdau (demo_cfg\<lparr>dcacascdau := Fin 10\<rparr>))
   \<and> \<not> flt_less (dcacascdau (demo_cfg\<lparr>dcacascdau := Fin 10\<rparr>)) (Fin 1)
   \<and> buildCascadeCandidate demo_env (demo_cfg\<lparr>dcacascdau := Fin 0.5\<rparr>) demo_collision
      (demo_track 20 5 (Fin 0.2) (Fin (- 1))) True demo_v0state
     = Inr (True, cand_state (buildCascadeCandidate demo_env (demo_cfg\<lparr>dcacascdau := Fin 0.5\<rparr>)
          demo_collision (demo_track 20 5 (Fin 0.2) (Fin (- 1))) True demo_v0state))
   \<and> registry (cand_state (buildCascadeCandidate demo_env (demo_cfg\<lparr>dcacascdau := Fin 0.5\<rparr>)
          demo_collision (demo_track 20 5 (Fin 0.2) (Fin (- 1))) True demo_v0state))
        hCascadeCriteria 4 = Suc (registry demo_v0state hCascadeCriteria 4)
   \<and> c_dcacascdau (cascadecandidate (cand_state (buildCascadeCandidate demo_env
          (demo_cfg\<lparr>dcacascdau := Fin 0.5\<rparr>) demo_collision
          (demo_track 20 5 (Fin 0.2) (Fin (- 1))) True demo_v0state))) = Fin 1
   \<and> flt_less (dcacascdau (demo_cfg\<lparr>dcacascdau := Fin 0.5\<rparr>)) (Fin 1)
   \<and> \<not> flt_less (Fin 6) (dcacascdau (demo_cfg\<lparr>dcacascdau := Fin 0.5\<rparr>))"
proof -
  have r0: "registry demo_v0state hCascadeCriteria 4 = 0" by (simp add: demo_v0state_eval)
  have "\<exists>st. buildCascadeCandidate demo_env (demo_cfg\<lparr>dcacascdau := Fin 10\<rparr>) demo_collision
            (demo_track 20 5 (Fin 0.2) (Fin (- 1))) True demo_v0state = Inr (False, st)
          \<and> registry st hCascadeCriteria 4 = Suc 0
          \<and> c_dcacascdau (cascadecandidate st) = Fin 1
          \<and> c_cascradius (cascadecandidate st) = Fin 6"
    by (simp add: demo_v0state_eval run_defs demo_consts)
  then obtain st1
    where e1: "buildCascadeCandidate demo_env (demo_cfg\<lparr>dcacascdau := Fin 10\<rparr>) demo_collision
            (demo_track 20 5 (Fin 0.2) (Fin (- 1))) True demo_v0state = Inr (False, st1)"
      and p1: "registry st1 hCascadeCriteria 4 = Suc 0"
        "c_dcacascdau (cascadecandidate st1) = Fin 1" "c_cascradius (cascadecandidate st1) = Fin 6"
    by blast
  have "\<exists>st. buildCascadeCandidate demo_env (demo_cfg\<lparr>dcacascdau := Fin 0.5\<rparr>) demo_collision
            (demo_track 20 5 (Fin 0.2) (Fin (- 1))) True demo_v0state = Inr (True, st)
          \<and> registry st hCascadeCriteria 4 = Suc 0
          \<and> c_dcacascdau (cascadecandidate st) = Fin 1
          \<and> c_cascradius (cascadecandidate st) = Fin 6"
    by (simp add: demo_v0state_eval run_defs demo_consts)
  then obtain st2
    where e2: "buildCascadeCandidate demo_env (demo_cfg\<lparr>dcacascdau := Fin 0.5\<rparr>) demo_collision
            (demo_track 20 5 (Fin 0.2) (Fin (- 1))) True demo_v0state = Inr (True, st2)"
      and p2: "registry st2 hCascadeCriteria 4 = Suc 0"
        "c_dcacascdau (cascadecandidate st2) = Fin 1" "c_cascradius (cascadecandidate st2) = Fin 6"
    by blast
  from p1 p2 r0 have reach: "registry st1 hCascadeCriteria 4 = Suc (registry demo_v0state hCascadeCriteria 4)"
    "registry st2 hCascadeCriteria 4 = Suc (registry demo_v0state hCascadeCriteria 4)"
    by simp_all
  from C1_cascade_dca_gate_compares_radius [OF e1 reach(1)]
  have "flt_less (c_cascradius (cascadecandidate st1))
          (dcacascdau (demo_cfg\<lparr>dcacascdau := Fin 10\<rparr>))"
    by blast
  then have d1: "flt_less (Fin 6) (dcacascdau (demo_cfg\<lparr>dcacascdau := Fin 10\<rparr>))"
    unfolding p1(3) .
  from C1_cascade_dca_gate_compares_radius [OF e2 reach(2)]
  have "\<not> flt_less (c_cascradius (cascadecandidate st2))
          (dcacascdau (demo_cfg\<lparr>dcacascdau := Fin 0.5\<rparr>))"
    by blast
  then have d2: "\<not> flt_less (Fin 6) (dcacascdau (demo_cfg\<lparr>dcacascdau := Fin 0.5\<rparr>))"
    unfolding p2(3) .
  note d = d1 d2
  from d reach p1 p2 show ?thesis unfolding e1 e2 cand_state_def by simp
qed

lemma bV0_masses:
  "buildV0Candidate env cfg collision p n l s = (True, s') \<Longrightarrow>
   posP (v0candidate s') = getPxPyPzGlo env (parCov p)
   \<and> negP (v0candidate s') = getPxPyPzGlo env (parCov n)
   \<and> lambdaMass (v0candidate s') =
       to_float (recoDecay_m env [posP (v0candidate s'), negP (v0candidate s')]
         [getMassPDG env kProton, getMassPDG env kPiPlus])
   \<and> antilambdaMass (v0candidate s') =
       to_float (recoDecay_m env [posP (v0candidate s'), negP (v0candidate s')]
         [getMassPDG env kPiPlus, getMassPDG env kProton])"
  by (auto simp add: buildV0Candidate_def Let_def split: if_splits fit_outcome.splits)

lemma bCasc_mass_gate:
  "\<not> flt_less (dcaXY b) (dcabachtopv cfg) \<Longrightarrow>
   (registry (cand_state (buildCascadeCandidate env cfg collision b l s)) hCascadeCriteria 2
      = registry s hCascadeCriteria 2)
   = (if flt_less (Fin 0) (signed1Pt b)
      then flt_less (lambdaMassWindow cfg)
             (flt_abs (flt_sub (antilambdaMass (v0candidate s)) (Fin 1.116)))
      else flt_less (lambdaMassWindow cfg)
             (flt_abs (flt_sub (lambdaMass (v0candidate s)) (Fin 1.116))))"
  by (simp add: buildCascadeCandidate_def Let_def cand_state_def fill_def split: fit_outcome.splits)

lemma bCasc_before_fit:
  "registry (cand_state (buildCascadeCandidate env cfg collision b l s)) hCascadeCriteria 2
      = registry s hCascadeCriteria 2 \<Longrightarrow>
   \<not> cand_ok (buildCascadeCandidate env cfg collision b l s)
   \<and> fitterCalls (cand_state (buildCascadeCandidate env cfg collision b l s)) = fitterCalls s
   \<and> fitter (cand_state (buildCascadeCandidate env cfg collision b l s)) = fitter s"
  by (simp add: buildCascadeCandidate_def Let_def cand_state_def cand_ok_def fill_def
      split: if_splits fit_outcome.splits)

lemma bCasc_charge:
  "\<not> flt_less (dcaXY b) (dcabachtopv cfg) \<Longrightarrow>
   c_charge (cascadecandidate (cand_state (buildCascadeCandidate env cfg collision b l s)))
     = (if flt_less (Fin 0) (signed1Pt b) then 1 else - 1)"
  by (simp add: buildCascadeCandidate_def Let_def cand_state_def split: fit_outcome.splits)

text \<open>
  Claim C6. Let the parent V0 be accepted and let the bachelor pass the gate on its impact
  parameter. The fields \<^verbatim>\<open>lambdaMass\<close> and \<^verbatim>\<open>antilambdaMass\<close> hold the masses of the two
  daughter momenta under the (proton, pion) and the (pion, proton) hypothesis, converted to
  \<^verbatim>\<open>float\<close>. The charge of the candidate is \<open>+1\<close> when \<^verbatim>\<open>signed1Pt\<close> is positive and \<open>-1\<close>
  otherwise. The candidate is stopped at the mass gate (the counter behind it is not filled)
  if and only if, for a negative bachelor, \<^verbatim>\<open>lambdaMass\<close> is further than
  \<^verbatim>\<open>lambdaMassWindow\<close> from 1.116, and for a positive bachelor \<^verbatim>\<open>antilambdaMass\<close> is. A
  candidate stopped there is rejected and the fitter has not been called.
\<close>

theorem C6_charge_selects_mass_hypothesis:
  assumes "buildV0Candidate env cfg collision posTrack negTrack lRun3 s0 = (True, s1)"
    and "v0candidate s = v0candidate s1"
    and "\<not> flt_less (dcaXY bachTrack) (dcabachtopv cfg)"
  shows "lambdaMass (v0candidate s) =
           to_float (recoDecay_m env
             [getPxPyPzGlo env (parCov posTrack), getPxPyPzGlo env (parCov negTrack)]
             [getMassPDG env kProton, getMassPDG env kPiPlus])
   \<and> antilambdaMass (v0candidate s) =
           to_float (recoDecay_m env
             [getPxPyPzGlo env (parCov posTrack), getPxPyPzGlo env (parCov negTrack)]
             [getMassPDG env kPiPlus, getMassPDG env kProton])
   \<and> c_charge (cascadecandidate (cand_state (buildCascadeCandidate env cfg collision bachTrack lRun3 s)))
           = (if flt_less (Fin 0) (signed1Pt bachTrack) then 1 else - 1)
   \<and> (\<not> flt_less (Fin 0) (signed1Pt bachTrack) \<longrightarrow>
        (registry (cand_state (buildCascadeCandidate env cfg collision bachTrack lRun3 s)) hCascadeCriteria 2
           = registry s hCascadeCriteria 2)
        = flt_less (lambdaMassWindow cfg)
            (flt_abs (flt_sub (lambdaMass (v0candidate s)) (Fin 1.116))))
   \<and> (flt_less (Fin 0) (signed1Pt bachTrack) \<longrightarrow>
        (registry (cand_state (buildCascadeCandidate env cfg collision bachTrack lRun3 s)) hCascadeCriteria 2
           = registry s hCascadeCriteria 2)
        = flt_less (lambdaMassWindow cfg)
            (flt_abs (flt_sub (antilambdaMass (v0candidate s)) (Fin 1.116))))
   \<and> (registry (cand_state (buildCascadeCandidate env cfg collision bachTrack lRun3 s)) hCascadeCriteria 2
         = registry s hCascadeCriteria 2 \<longrightarrow>
        \<not> cand_ok (buildCascadeCandidate env cfg collision bachTrack lRun3 s)
        \<and> fitterCalls (cand_state (buildCascadeCandidate env cfg collision bachTrack lRun3 s))
            = fitterCalls s)"
proof -
  from bV0_masses [OF assms(1)] assms(2)
  have m: "lambdaMass (v0candidate s) =
           to_float (recoDecay_m env
             [getPxPyPzGlo env (parCov posTrack), getPxPyPzGlo env (parCov negTrack)]
             [getMassPDG env kProton, getMassPDG env kPiPlus])"
    "antilambdaMass (v0candidate s) =
           to_float (recoDecay_m env
             [getPxPyPzGlo env (parCov posTrack), getPxPyPzGlo env (parCov negTrack)]
             [getMassPDG env kPiPlus, getMassPDG env kProton])"
    by simp_all
  from bCasc_mass_gate [OF assms(3), of env collision lRun3 s]
  have g: "(registry (cand_state (buildCascadeCandidate env cfg collision bachTrack lRun3 s)) hCascadeCriteria 2
           = registry s hCascadeCriteria 2)
     = (if flt_less (Fin 0) (signed1Pt bachTrack)
        then flt_less (lambdaMassWindow cfg)
               (flt_abs (flt_sub (antilambdaMass (v0candidate s)) (Fin 1.116)))
        else flt_less (lambdaMassWindow cfg)
               (flt_abs (flt_sub (lambdaMass (v0candidate s)) (Fin 1.116))))" .
  have c: "c_charge (cascadecandidate (cand_state (buildCascadeCandidate env cfg collision bachTrack lRun3 s)))
           = (if flt_less (Fin 0) (signed1Pt bachTrack) then 1 else - 1)"
    by (rule bCasc_charge [OF assms(3)])
  have neg: "\<not> flt_less (Fin 0) (signed1Pt bachTrack) \<longrightarrow>
        (registry (cand_state (buildCascadeCandidate env cfg collision bachTrack lRun3 s)) hCascadeCriteria 2
           = registry s hCascadeCriteria 2)
        = flt_less (lambdaMassWindow cfg)
            (flt_abs (flt_sub (lambdaMass (v0candidate s)) (Fin 1.116)))"
    using g by simp
  have pos: "flt_less (Fin 0) (signed1Pt bachTrack) \<longrightarrow>
        (registry (cand_state (buildCascadeCandidate env cfg collision bachTrack lRun3 s)) hCascadeCriteria 2
           = registry s hCascadeCriteria 2)
        = flt_less (lambdaMassWindow cfg)
            (flt_abs (flt_sub (antilambdaMass (v0candidate s)) (Fin 1.116)))"
    using g by simp
  from m c neg pos bCasc_before_fit [of env cfg collision bachTrack lRun3 s]
  show ?thesis by blast
qed

text \<open>
  On the concrete V0 a negative bachelor passes the mass gate and a positive one is stopped
  there. With a computed mass 1.12599999, which is within the window, the field holds
  1.12600004673..., which is not, and the negative bachelor is stopped.
\<close>

theorem C6_charge_selects_mass_hypothesis_witness:
  "buildV0Candidate demo_env demo_cfg demo_collision demo_pos (demo_neg 2) True demo_state
     = (True, demo_v0state)
   \<and> \<not> flt_less (dcaXY (demo_track 20 5 (Fin 0.2) (Fin (- 1)))) (dcabachtopv demo_cfg)
   \<and> \<not> flt_less (Fin 0) (signed1Pt (demo_track 20 5 (Fin 0.2) (Fin (- 1))))
   \<and> registry (cand_state (buildCascadeCandidate demo_env demo_cfg demo_collision
        (demo_track 20 5 (Fin 0.2) (Fin (- 1))) True demo_v0state)) hCascadeCriteria 2
      \<noteq> registry demo_v0state hCascadeCriteria 2
   \<and> \<not> flt_less (dcaXY (demo_track 20 5 (Fin 0.2) (Fin 1))) (dcabachtopv demo_cfg)
   \<and> flt_less (Fin 0) (signed1Pt (demo_track 20 5 (Fin 0.2) (Fin 1)))
   \<and> registry (cand_state (buildCascadeCandidate demo_env demo_cfg demo_collision
        (demo_track 20 5 (Fin 0.2) (Fin 1)) True demo_v0state)) hCascadeCriteria 2
      = registry demo_v0state hCascadeCriteria 2
   \<and> \<not> cand_ok (buildCascadeCandidate demo_env demo_cfg demo_collision
        (demo_track 20 5 (Fin 0.2) (Fin 1)) True demo_v0state)
   \<and> fitterCalls (cand_state (buildCascadeCandidate demo_env demo_cfg demo_collision
        (demo_track 20 5 (Fin 0.2) (Fin 1)) True demo_v0state)) = fitterCalls demo_v0state
   \<and> buildV0Candidate demo_env_near demo_cfg demo_collision demo_pos (demo_neg 2) True demo_state
     = (True, demo_v0state_near)
   \<and> recoDecay_m demo_env_near
        [getPxPyPzGlo demo_env_near (parCov demo_pos),
         getPxPyPzGlo demo_env_near (parCov (demo_neg 2))]
        [getMassPDG demo_env_near kProton, getMassPDG demo_env_near kPiPlus] = Fin 1.12599999
   \<and> \<not> flt_less (lambdaMassWindow demo_cfg) (flt_abs (flt_sub (Fin 1.12599999) (Fin 1.116)))
   \<and> lambdaMass (v0candidate demo_v0state_near) = Fin 1.12600004673004150390625
   \<and> flt_less (lambdaMassWindow demo_cfg)
        (flt_abs (flt_sub (lambdaMass (v0candidate demo_v0state_near)) (Fin 1.116)))
   \<and> registry (cand_state (buildCascadeCandidate demo_env_near demo_cfg demo_collision
        (demo_track 20 5 (Fin 0.2) (Fin (- 1))) True demo_v0state_near)) hCascadeCriteria 2
      = registry demo_v0state_near hCascadeCriteria 2"
proof -
  let ?n = "demo_track 20 5 (Fin 0.2) (Fin (- 1))" and ?p = "demo_track 20 5 (Fin 0.2) (Fin 1)"
  have gn: "\<not> flt_less (dcaXY ?n) (dcabachtopv demo_cfg)"
    and gp: "\<not> flt_less (dcaXY ?p) (dcabachtopv demo_cfg)"
    and sn: "\<not> flt_less (Fin 0) (signed1Pt ?n)"
    and sp: "flt_less (Fin 0) (signed1Pt ?p)"
    by (simp_all add: demo_track_def demo_cfg_def)
  have m1: "\<not> flt_less (lambdaMassWindow demo_cfg)
              (flt_abs (flt_sub (lambdaMass (v0candidate demo_v0state)) (Fin 1.116)))"
    and m2: "flt_less (lambdaMassWindow demo_cfg)
              (flt_abs (flt_sub (antilambdaMass (v0candidate demo_v0state)) (Fin 1.116)))"
    by (simp_all add: demo_v0state_eval demo_cfg_def flt_sub_def)
  have m3: "flt_less (lambdaMassWindow demo_cfg)
              (flt_abs (flt_sub (lambdaMass (v0candidate demo_v0state_near)) (Fin 1.116)))"
    and m4: "lambdaMass (v0candidate demo_v0state_near) = Fin 1.12600004673004150390625"
    by (simp_all add: demo_v0state_near_eval demo_cfg_def flt_sub_def)
  have m5: "recoDecay_m demo_env_near
        [getPxPyPzGlo demo_env_near (parCov demo_pos),
         getPxPyPzGlo demo_env_near (parCov (demo_neg 2))]
        [getMassPDG demo_env_near kProton, getMassPDG demo_env_near kPiPlus] = Fin 1.12599999"
    and m6: "\<not> flt_less (lambdaMassWindow demo_cfg) (flt_abs (flt_sub (Fin 1.12599999) (Fin 1.116)))"
    by (simp_all add: demo_env_near_def demo_cfg_def flt_sub_def)
  from C6_charge_selects_mass_hypothesis [OF demo_bV0(1) refl gn] sn m1
  have r1: "registry (cand_state (buildCascadeCandidate demo_env demo_cfg demo_collision
        ?n True demo_v0state)) hCascadeCriteria 2 \<noteq> registry demo_v0state hCascadeCriteria 2"
    by blast
  from C6_charge_selects_mass_hypothesis [OF demo_bV0(1) refl gp] sp m2
  have r2: "registry (cand_state (buildCascadeCandidate demo_env demo_cfg demo_collision
        ?p True demo_v0state)) hCascadeCriteria 2 = registry demo_v0state hCascadeCriteria 2"
    and r3: "\<not> cand_ok (buildCascadeCandidate demo_env demo_cfg demo_collision ?p True demo_v0state)"
    and r4: "fitterCalls (cand_state (buildCascadeCandidate demo_env demo_cfg demo_collision
        ?p True demo_v0state)) = fitterCalls demo_v0state"
    by blast+
  from C6_charge_selects_mass_hypothesis [OF demo_bV0(2) refl gn] sn m3
  have r5: "registry (cand_state (buildCascadeCandidate demo_env_near demo_cfg demo_collision
        ?n True demo_v0state_near)) hCascadeCriteria 2 = registry demo_v0state_near hCascadeCriteria 2"
    by blast
  from demo_bV0 gn sn r1 gp sp r2 r3 r4 m5 m6 m4 m3 r5 show ?thesis by blast
qed

subsection \<open>Exceptions of the fitter\<close>

text \<open>In \<^verbatim>\<open>buildV0Candidate\<close> an exception of the fitter is caught and counted.\<close>

lemma bV0_catches:
  "process env (parCov p) (parCov n) = Throws f \<Longrightarrow>
   registry (snd (buildV0Candidate env cfg collision p n l s)) hV0Criteria 3
     = Suc (registry s hV0Criteria 3) \<Longrightarrow>
   \<not> fst (buildV0Candidate env cfg collision p n l s)
   \<and> registry (snd (buildV0Candidate env cfg collision p n l s)) hCaughtExceptions 0
       = Suc (registry s hCaughtExceptions 0)"
  by (simp add: buildV0Candidate_def Let_def fill_def split: if_splits)

text \<open>
  Claim C2 does not hold for the cascade fit. On the concrete inputs the fitter throws for
  the bachelor with track 13: \<^verbatim>\<open>buildCascadeCandidate\<close> is left with the exception, the
  counter of caught exceptions is not filled, and \<^verbatim>\<open>buildStrangenessTables\<close> and the run of
  the task end with the exception. The same throw in the V0 fit (negative daughter 13) is
  caught: the candidate is rejected and the counter is filled.
\<close>

theorem C2_cascade_fit_exception_escapes:
  "process demo_env (lV0Track demo_v0state) (parCov (demo_track 20 13 (Fin 0.2) (Fin (- 1))))
     = Throws (demo_fit (NaN, NaN, NaN) NaN 3 13)
   \<and> buildCascadeCandidate demo_env demo_cfg demo_collision
        (demo_track 20 13 (Fin 0.2) (Fin (- 1))) True demo_v0state
      = Inl (FitterException,
          cand_state (buildCascadeCandidate demo_env demo_cfg demo_collision
            (demo_track 20 13 (Fin 0.2) (Fin (- 1))) True demo_v0state))
   \<and> registry (cand_state (buildCascadeCandidate demo_env demo_cfg demo_collision
          (demo_track 20 13 (Fin 0.2) (Fin (- 1))) True demo_v0state)) hCaughtExceptions 0
      = registry demo_v0state hCaughtExceptions 0
   \<and> (case buildStrangenessTables demo_env demo_cfg demo_collision
          [demo_V0 2 [demo_cascade 13 (Fin 0.2) (Fin (- 1))]] True demo_state of
        Inl (e, s) \<Rightarrow> e = FitterException \<and> registry s hCaughtExceptions 0 = 0
      | Inr s \<Rightarrow> False)
   \<and> fst (runTask demo_env False True [] demo_cfg
          [(demo_collision, [demo_V0 2 [demo_cascade 13 (Fin 0.2) (Fin (- 1))]])] demo_state)
      = Some FitterException
   \<and> \<not> fst (buildV0Candidate demo_env demo_cfg demo_collision demo_pos (demo_neg 13) True demo_state)
   \<and> registry (snd (buildV0Candidate demo_env demo_cfg demo_collision demo_pos (demo_neg 13) True
          demo_state)) hCaughtExceptions 0 = 1"
proof -
  have p: "process demo_env (lV0Track demo_v0state) (parCov (demo_track 20 13 (Fin 0.2) (Fin (- 1))))
     = Throws (demo_fit (NaN, NaN, NaN) NaN 3 13)"
    by (simp add: demo_v0state_eval demo_consts)
  have r0: "registry demo_v0state hCaughtExceptions 0 = 0" by (simp add: demo_v0state_eval)
  have "\<exists>st. buildCascadeCandidate demo_env demo_cfg demo_collision (demo_track 20 13 (Fin 0.2) (Fin (- 1))) True demo_v0state
            = Inl (FitterException, st) \<and> registry st hCaughtExceptions 0 = 0"
    by (simp add: demo_v0state_eval run_defs demo_consts)
  then obtain st1
    where e1: "buildCascadeCandidate demo_env demo_cfg demo_collision (demo_track 20 13 (Fin 0.2) (Fin (- 1))) True demo_v0state
            = Inl (FitterException, st1)"
      and p1: "registry st1 hCaughtExceptions 0 = 0"
    by blast
  have t: "(case buildStrangenessTables demo_env demo_cfg demo_collision
          [demo_V0 2 [demo_cascade 13 (Fin 0.2) (Fin (- 1))]] True demo_state of
        Inl (e, s) \<Rightarrow> e = FitterException \<and> registry s hCaughtExceptions 0 = 0
      | Inr s \<Rightarrow> False)"
    by (simp add: run_defs demo_consts)
  have u: "fst (runTask demo_env False True [] demo_cfg
          [(demo_collision, [demo_V0 2 [demo_cascade 13 (Fin 0.2) (Fin (- 1))]])] demo_state)
      = Some FitterException"
    by (simp add: run_defs demo_consts runTask_def init_def processRun3_def)
  have "\<exists>st. buildV0Candidate demo_env demo_cfg demo_collision demo_pos (demo_neg 13) True
            demo_state = (False, st) \<and> registry st hCaughtExceptions 0 = 1"
    by (simp add: run_defs demo_consts)
  then obtain st2
    where e2: "buildV0Candidate demo_env demo_cfg demo_collision demo_pos (demo_neg 13) True
            demo_state = (False, st2)"
      and p2: "registry st2 hCaughtExceptions 0 = 1"
    by blast
  from p r0 p1 t u p2 show ?thesis unfolding e1 e2 cand_state_def by simp
qed

subsection \<open>Start-up\<close>

text \<open>
  Claim C8. When the switches of \<^verbatim>\<open>processRun2\<close> and \<^verbatim>\<open>processRun3\<close> are both off or both
  on, \<^verbatim>\<open>init\<close> ends the program with a fatal error, and the run of the task ends with
  that error in its initial state: no collision has been processed. When exactly one switch
  is on, \<^verbatim>\<open>init\<close> returns.
\<close>

theorem C8_init_mode_check:
  "(doprocessRun2 = doprocessRun3 \<longrightarrow>
      (\<exists>msg. init doprocessRun2 doprocessRun3 devices cfg = Inl (Fatal msg)
         \<and> runTask env doprocessRun2 doprocessRun3 devices cfg units s = (Some (Fatal msg), s)))
   \<and> (doprocessRun2 \<noteq> doprocessRun3 \<longrightarrow>
      (\<exists>cfg1. init doprocessRun2 doprocessRun3 devices cfg = Inr cfg1))"
  by (cases doprocessRun2; cases doprocessRun3) (simp_all add: init_def runTask_def)

theorem C8_init_mode_check_witness:
  "init False False [[''CascData'']] demo_cfg
     = Inl (Fatal ''Neither processRun2 nor processRun3 enabled. Please choose one.'')
   \<and> init True True [[''CascData'']] demo_cfg
     = Inl (Fatal ''Cannot enable processRun2 and processRun3 at the same time. Please choose one.'')
   \<and> runTask demo_env True True [[''CascData'']] demo_cfg [(demo_collision, [demo_V0 2 []])] demo_state
     = (Some (Fatal ''Cannot enable processRun2 and processRun3 at the same time. Please choose one.''),
        demo_state)
   \<and> init False True [[''CascData'']] demo_cfg = Inr (demo_cfg\<lparr>createCascades := 1\<rparr>)
   \<and> init True False [[''CascData'']] demo_cfg = Inr (demo_cfg\<lparr>createCascades := 1\<rparr>)"
  using C8_init_mode_check [of False False "[[''CascData'']]" demo_cfg demo_env
      "[(demo_collision, [demo_V0 2 []])]" demo_state]
    C8_init_mode_check [of True True "[[''CascData'']]" demo_cfg demo_env
      "[(demo_collision, [demo_V0 2 []])]" demo_state]
    C8_init_mode_check [of False True "[[''CascData'']]" demo_cfg demo_env
      "[(demo_collision, [demo_V0 2 []])]" demo_state]
    C8_init_mode_check [of True False "[[''CascData'']]" demo_cfg demo_env
      "[(demo_collision, [demo_V0 2 []])]" demo_state]
  by (simp add: init_def runTask_def enable_def demo_cfg_def)

subsection \<open>Cascade output switched off\<close>

text \<open>One round of the outer loop, in terms of the result of \<^verbatim>\<open>buildV0Candidate\<close>.\<close>

lemma v0Loop_Cons:
  "v0Loop env cfg collision l (V0 # rest) s =
     (let r = buildV0Candidate env cfg collision (posTrack_as V0) (negTrack_as V0) l s;
          s3 = emitV0 env cfg (snd r)
      in if \<not> fst r then v0Loop env cfg collision l rest (snd r)
         else if createCascades cfg = 0 then v0Loop env cfg collision l rest s3
         else (case cascadeLoop env cfg collision V0 l (cascadeCandidate V0) s3 of
                 Inl e \<Rightarrow> Inl e
               | Inr s4 \<Rightarrow> v0Loop env cfg collision l rest s4))"
  by (simp add: emitV0_def Let_def split: prod.splits)

text \<open>
  The V0 stage does not read \<^verbatim>\<open>createCascades\<close>, decides without reading the state, and
  computes its part of the state from its part of the state; the cascade stage leaves that
  part alone.
\<close>

lemma bV0_createCascades:
  "buildV0Candidate env (cfg\<lparr>createCascades := c\<rparr>) collision p n l s =
   buildV0Candidate env cfg collision p n l s"
  by (simp add: buildV0Candidate_def Let_def split: fit_outcome.splits)

lemma emitV0_createCascades: "emitV0 env (cfg\<lparr>createCascades := c\<rparr>) s = emitV0 env cfg s"
  by (simp add: emitV0_def)

lemma bV0_v0part_fst:
  "fst (buildV0Candidate env cfg collision p n l s) = fst (buildV0Candidate env cfg collision p n l t)"
  by (simp add: buildV0Candidate_def Let_def split: fit_outcome.splits)

lemma bV0_v0part:
  "v0part s = v0part t \<Longrightarrow>
   v0part (snd (buildV0Candidate env cfg collision p n l s)) =
   v0part (snd (buildV0Candidate env cfg collision p n l t))"
  by (simp add: buildV0Candidate_def Let_def v0part_def fill_def split: fit_outcome.splits)

lemma emitV0_v0part: "v0part s = v0part t \<Longrightarrow> v0part (emitV0 env cfg s) = v0part (emitV0 env cfg t)"
  by (simp add: emitV0_def v0part_def Let_def)

lemma bCasc_v0part:
  "v0part (cand_state (buildCascadeCandidate env cfg collision b l s)) = v0part s"
  by (simp add: buildCascadeCandidate_def Let_def cand_state_def v0part_def fill_def
      split: fit_outcome.splits)

lemma cascadeLoop_v0part:
  "v0part (final (cascadeLoop env cfg collision V0 l cs s)) = v0part s"
proof (rule cascadeLoop_inv [where I = "\<lambda>t. v0part t = v0part s"])
qed (simp_all add: bCasc_v0part, simp_all add: v0part_def)

lemma bV0_cascade_side:
  "cascadecandidate (snd (buildV0Candidate env cfg collision p n l s)) = cascadecandidate s"
  "registry (snd (buildV0Candidate env cfg collision p n l s)) hCascadeCriteria
     = registry s hCascadeCriteria"
  "cascadeFits (snd (buildV0Candidate env cfg collision p n l s)) = cascadeFits s"
  by (simp_all add: buildV0Candidate_def Let_def fill_def cascadeFits_def split: fit_outcome.splits)

lemma emitV0_cascade_side:
  "cascdata (emitV0 env cfg s) = cascdata s"
  "casccovs (emitV0 env cfg s) = casccovs s"
  "registry (emitV0 env cfg s) = registry s"
  "cascadeFits (emitV0 env cfg s) = cascadeFits s"
  by (simp_all add: emitV0_def Let_def cascadeFits_def)

text \<open>With the switch at 0 the loop returns and nothing of the cascade stage has moved.\<close>

lemma v0Loop_disabled:
  "createCascades cfg = 0 \<Longrightarrow>
   \<exists>s'. v0Loop env cfg collision l V0s s = Inr s'
     \<and> cascdata s' = cascdata s \<and> casccovs s' = casccovs s
     \<and> registry s' hCascadeCriteria = registry s hCascadeCriteria
     \<and> cascadeFits s' = cascadeFits s"
proof (induction V0s arbitrary: s)
  case Nil
  show ?case by simp
next
  case (Cons V0 V0s)
  let ?r = "buildV0Candidate env cfg collision (posTrack_as V0) (negTrack_as V0) l s"
  show ?case
  proof (cases "fst ?r")
    case False
    with Cons.IH [OF Cons.prems, of "snd ?r"] show ?thesis
      by (simp add: v0Loop_Cons Let_def bV0_tables bV0_cascade_side del: v0Loop.simps(2))
  next
    case True
    with Cons.prems Cons.IH [OF Cons.prems, of "emitV0 env cfg (snd ?r)"] show ?thesis
      by (simp add: v0Loop_Cons Let_def bV0_tables bV0_cascade_side emitV0_cascade_side del: v0Loop.simps(2))
  qed
qed

text \<open>
  A run with any setting of the switch that returns, and the run with the switch at 0, end
  with the same V0 part of the state.
\<close>

lemma v0Loop_same_v0part:
  "createCascades cfg = 0 \<Longrightarrow> v0part s = v0part t \<Longrightarrow>
   v0Loop env (cfg\<lparr>createCascades := c\<rparr>) collision l V0s t = Inr t' \<Longrightarrow>
   v0part (final (v0Loop env cfg collision l V0s s)) = v0part t'"
proof (induction V0s arbitrary: s t)
  case Nil
  then show ?case by (simp add: final_def)
next
  case (Cons V0 V0s)
  let ?cfg = "cfg\<lparr>createCascades := c\<rparr>"
  let ?rs = "buildV0Candidate env cfg collision (posTrack_as V0) (negTrack_as V0) l s"
  let ?rt = "buildV0Candidate env cfg collision (posTrack_as V0) (negTrack_as V0) l t"
  have fst_eq: "fst ?rs = fst ?rt" by (rule bV0_v0part_fst)
  have snd_eq: "v0part (snd ?rs) = v0part (snd ?rt)" by (rule bV0_v0part [OF Cons.prems(2)])
  show ?case
  proof (cases "fst ?rt")
    case False
    with Cons.prems(3) have "v0Loop env ?cfg collision l V0s (snd ?rt) = Inr t'"
      by (simp add: v0Loop_Cons Let_def bV0_createCascades del: v0Loop.simps(2))
    from Cons.IH [OF Cons.prems(1) snd_eq this] False fst_eq show ?thesis
      by (simp add: v0Loop_Cons Let_def del: v0Loop.simps(2))
  next
    case True
    let ?s3 = "emitV0 env cfg (snd ?rs)"
    let ?t3 = "emitV0 env cfg (snd ?rt)"
    have e: "v0part ?s3 = v0part ?t3" by (rule emitV0_v0part [OF snd_eq])
    have left: "v0Loop env cfg collision l (V0 # V0s) s = v0Loop env cfg collision l V0s ?s3"
      using True fst_eq Cons.prems(1) by (simp add: v0Loop_Cons Let_def del: v0Loop.simps(2))
    show ?thesis
    proof (cases "c = 0")
      case z: True
      with True Cons.prems(3) have "v0Loop env ?cfg collision l V0s ?t3 = Inr t'"
        by (simp add: v0Loop_Cons Let_def bV0_createCascades emitV0_createCascades del: v0Loop.simps(2))
      from Cons.IH [OF Cons.prems(1) e this] left show ?thesis by simp
    next
      case nz: False
      let ?c = "cascadeLoop env ?cfg collision V0 l (cascadeCandidate V0) ?t3"
      from True nz Cons.prems(3)
      have run: "(case ?c of Inl e \<Rightarrow> Inl e | Inr s4 \<Rightarrow> v0Loop env ?cfg collision l V0s s4) = Inr t'"
        by (simp add: v0Loop_Cons Let_def bV0_createCascades emitV0_createCascades del: v0Loop.simps(2))
      then obtain t4 where c: "?c = Inr t4" and rest: "v0Loop env ?cfg collision l V0s t4 = Inr t'"
        by (cases ?c) auto
      from cascadeLoop_v0part [of env ?cfg collision V0 l "cascadeCandidate V0" ?t3] c
      have "v0part t4 = v0part ?t3" by (simp add: final_def)
      with e have "v0part ?s3 = v0part t4" by simp
      from Cons.IH [OF Cons.prems(1) this rest] left show ?thesis by simp
    qed
  qed
qed

text \<open>
  Claim C7. With \<^verbatim>\<open>createCascades = 0\<close>, \<^verbatim>\<open>buildStrangenessTables\<close> returns, whatever
  cascades the V0s refer to, and the cascade stage has not run: no call of the fitter from
  \<^verbatim>\<open>buildCascadeCandidate\<close> is recorded, no counter of \<^verbatim>\<open>hCascadeCriteria\<close> has moved and no
  row has been added to the cascade tables. The V0 rows and the V0 covariance rows are
  those of a run with any other setting of the switch that returns.
\<close>

theorem C7_cascades_disabled:
  assumes "createCascades cfg = 0"
  shows "(\<exists>s'. buildStrangenessTables env cfg collision V0s lRun3 s = Inr s')
   \<and> cascdata (final (buildStrangenessTables env cfg collision V0s lRun3 s)) = cascdata s
   \<and> casccovs (final (buildStrangenessTables env cfg collision V0s lRun3 s)) = casccovs s
   \<and> registry (final (buildStrangenessTables env cfg collision V0s lRun3 s)) hCascadeCriteria
       = registry s hCascadeCriteria
   \<and> cascadeFits (final (buildStrangenessTables env cfg collision V0s lRun3 s)) = cascadeFits s
   \<and> (buildStrangenessTables env (cfg\<lparr>createCascades := c\<rparr>) collision V0s lRun3 s = Inr t' \<longrightarrow>
        v0data (final (buildStrangenessTables env cfg collision V0s lRun3 s)) = v0data t'
        \<and> v0covs (final (buildStrangenessTables env cfg collision V0s lRun3 s)) = v0covs t')"
proof -
  let ?s = "s\<lparr>registry := fill hEventCounter 0 (registry s)\<rparr>"
  from v0Loop_disabled [OF assms, of env collision lRun3 V0s ?s]
  obtain s' where s': "v0Loop env cfg collision lRun3 V0s ?s = Inr s'"
    and 1: "cascdata s' = cascdata s" "casccovs s' = casccovs s"
      "registry s' hCascadeCriteria = registry s hCascadeCriteria" "cascadeFits s' = cascadeFits s"
    by (auto simp: fill_def cascadeFits_def)
  have 2: "v0data s' = v0data t' \<and> v0covs s' = v0covs t'"
    if "buildStrangenessTables env (cfg\<lparr>createCascades := c\<rparr>) collision V0s lRun3 s = Inr t'"
  proof -
    from that have "v0Loop env (cfg\<lparr>createCascades := c\<rparr>) collision lRun3 V0s ?s = Inr t'"
      by (simp add: buildStrangenessTables_def)
    from v0Loop_same_v0part [OF assms refl this] s' show ?thesis
      by (simp add: final_def v0part_def)
  qed
  from s' 1 2 show ?thesis by (simp add: buildStrangenessTables_def final_def)
qed

text \<open>
  On the concrete V0 with one cascade, the run with the default setting calls the fitter for
  the cascade and writes one cascade row; the run with the switch at 0 does neither and
  writes the same V0 row.
\<close>

theorem C7_cascades_disabled_witness:
  "createCascades (demo_cfg\<lparr>createCascades := 0\<rparr>) = 0
   \<and> buildStrangenessTables demo_env (demo_cfg\<lparr>createCascades := 0, createCascades := - 1\<rparr>)
        demo_collision [demo_V0 2 [demo_cascade 5 (Fin 0.2) (Fin (- 1))]] True demo_state
      = Inr (final (buildStrangenessTables demo_env demo_cfg
          demo_collision [demo_V0 2 [demo_cascade 5 (Fin 0.2) (Fin (- 1))]] True demo_state))
   \<and> length (cascdata (final (buildStrangenessTables demo_env demo_cfg
          demo_collision [demo_V0 2 [demo_cascade 5 (Fin 0.2) (Fin (- 1))]] True demo_state))) = 1
   \<and> cascadeFits (final (buildStrangenessTables demo_env demo_cfg
          demo_collision [demo_V0 2 [demo_cascade 5 (Fin 0.2) (Fin (- 1))]] True demo_state))
      = [(CascadeFit, 3, 5)]
   \<and> cascdata (final (buildStrangenessTables demo_env (demo_cfg\<lparr>createCascades := 0\<rparr>)
          demo_collision [demo_V0 2 [demo_cascade 5 (Fin 0.2) (Fin (- 1))]] True demo_state)) = []
   \<and> cascadeFits (final (buildStrangenessTables demo_env (demo_cfg\<lparr>createCascades := 0\<rparr>)
          demo_collision [demo_V0 2 [demo_cascade 5 (Fin 0.2) (Fin (- 1))]] True demo_state)) = []
   \<and> registry (final (buildStrangenessTables demo_env (demo_cfg\<lparr>createCascades := 0\<rparr>)
          demo_collision [demo_V0 2 [demo_cascade 5 (Fin 0.2) (Fin (- 1))]] True demo_state))
        hCascadeCriteria 0 = 0
   \<and> v0data (final (buildStrangenessTables demo_env (demo_cfg\<lparr>createCascades := 0\<rparr>)
          demo_collision [demo_V0 2 [demo_cascade 5 (Fin 0.2) (Fin (- 1))]] True demo_state))
      = v0data (final (buildStrangenessTables demo_env demo_cfg
          demo_collision [demo_V0 2 [demo_cascade 5 (Fin 0.2) (Fin (- 1))]] True demo_state))
   \<and> length (v0data (final (buildStrangenessTables demo_env (demo_cfg\<lparr>createCascades := 0\<rparr>)
          demo_collision [demo_V0 2 [demo_cascade 5 (Fin 0.2) (Fin (- 1))]] True demo_state))) = 1"
proof -
  from demo_run_eval obtain st
    where r: "buildStrangenessTables demo_env demo_cfg demo_collision
                [demo_V0 2 [demo_cascade 5 (Fin 0.2) (Fin (- 1))]] True demo_state = Inr st"
      and l: "length (v0data st) = 1" "length (cascdata st) = 1"
      and cf: "cascadeFits st = [(CascadeFit, 3, 5)]"
    by auto
  have z: "createCascades (demo_cfg\<lparr>createCascades := 0\<rparr>) = 0" by simp
  have "demo_cfg\<lparr>createCascades := - 1\<rparr> = demo_cfg" by (simp add: demo_cfg_def)
  with r have r': "buildStrangenessTables demo_env
      (demo_cfg\<lparr>createCascades := 0, createCascades := - 1\<rparr>) demo_collision
      [demo_V0 2 [demo_cascade 5 (Fin 0.2) (Fin (- 1))]] True demo_state = Inr st"
    by simp
  have i: "cascdata demo_state = []" "cascadeFits demo_state = []"
    "registry demo_state hCascadeCriteria 0 = 0"
    by (simp_all add: demo_state_def cascadeFits_def)
  from C7_cascades_disabled [OF z, of demo_env demo_collision
      "[demo_V0 2 [demo_cascade 5 (Fin 0.2) (Fin (- 1))]]" True demo_state "- 1" st] r' i
  have d: "cascdata (final (buildStrangenessTables demo_env (demo_cfg\<lparr>createCascades := 0\<rparr>)
          demo_collision [demo_V0 2 [demo_cascade 5 (Fin 0.2) (Fin (- 1))]] True demo_state)) = []"
    "cascadeFits (final (buildStrangenessTables demo_env (demo_cfg\<lparr>createCascades := 0\<rparr>)
          demo_collision [demo_V0 2 [demo_cascade 5 (Fin 0.2) (Fin (- 1))]] True demo_state)) = []"
    "registry (final (buildStrangenessTables demo_env (demo_cfg\<lparr>createCascades := 0\<rparr>)
          demo_collision [demo_V0 2 [demo_cascade 5 (Fin 0.2) (Fin (- 1))]] True demo_state)) hCascadeCriteria 0 = 0"
    "v0data (final (buildStrangenessTables demo_env (demo_cfg\<lparr>createCascades := 0\<rparr>)
          demo_collision [demo_V0 2 [demo_cascade 5 (Fin 0.2) (Fin (- 1))]] True demo_state)) = v0data st"
    by simp_all
  from z r' l cf d show ?thesis unfolding r final_def by simp
qed

end
